theory Spec2Isabelle
  imports Main "HOL-Library.Word" "HOL-Library.List_Lexorder"
begin

unbundle bit_operations_syntax

section \<open>Python values\<close>

text \<open>
  A Python \<open>bytes\<close> object is a list of bytes (\<open>char\<close> is an 8-bit character), a Python
  \<open>str\<close> is a list of Unicode code points. \<open>str\<close> turns an ASCII literal of the source
  into such a text.
\<close>

type_synonym bytes = "char list"
type_synonym unicode = "nat list"

definition str :: "string \<Rightarrow> unicode" where
  "str s = map of_char s"

text \<open>
  Exceptions are values. The two codec exceptions and the two built-in exceptions that
  \<open>_core.py\<close> raises keep their message; \<open>RuntimeError\<close> also keeps its cause
  (\<open>raise ... from exc\<close>). The others are raised by library calls.
\<close>

datatype error =
    PNGMetadataError string
  | SVGMetadataError string
  | ValueError unicode
  | RuntimeError string "error option"
  | StructError
  | UnicodeDecodeError
  | UnicodeEncodeError
  | JSONEncodeError
  | JSONDecodeError
  | RenderError
  | OSError
  | ImportError
  | CalledProcessError
  | FileNotFoundError

fun is_FormatError :: "error \<Rightarrow> bool" where
  "is_FormatError (PNGMetadataError m) = True"
| "is_FormatError (SVGMetadataError m) = True"
| "is_FormatError e = False"

text \<open>Sequencing: an exception raised by a call ends the function with that exception.\<close>

definition and_then :: "error + 'a \<Rightarrow> ('a \<Rightarrow> error + 'b) \<Rightarrow> error + 'b" where
  "and_then r f = (case r of Inl e \<Rightarrow> Inl e | Inr v \<Rightarrow> f v)"

definition startswith :: "'a list \<Rightarrow> 'a list \<Rightarrow> bool" where
  "startswith xs p = (take (length p) xs = p)"

text \<open>The slice \<open>xs[a:b]\<close> for indices \<open>0 \<le> a\<close>, \<open>0 \<le> b\<close>: it never raises.\<close>

definition slice :: "'a list \<Rightarrow> nat \<Rightarrow> nat \<Rightarrow> 'a list" where
  "slice xs a b = take (b - a) (drop a xs)"

section \<open>Library functions of the raster codec\<close>

text \<open>\<open>struct.pack(">I", n)\<close> and \<open>struct.unpack(">I", bs)[0]\<close>.\<close>

definition struct_pack_I :: "nat \<Rightarrow> error + bytes" where
  "struct_pack_I n =
     (if n < 2 ^ 32
      then Inr [char_of (n div 2 ^ 24), char_of (n div 2 ^ 16), char_of (n div 2 ^ 8), char_of n]
      else Inl StructError)"

definition struct_unpack_I :: "bytes \<Rightarrow> error + nat" where
  "struct_unpack_I bs =
     (case bs of
        [a, b, c, d] \<Rightarrow>
          Inr (of_char a * 2 ^ 24 + of_char b * 2 ^ 16 + of_char c * 2 ^ 8 + of_char d)
      | _ \<Rightarrow> Inl StructError)"

text \<open>\<open>zlib.crc32\<close>: the reflected CRC-32 with polynomial \<open>0xEDB88320\<close>.\<close>

definition crc32_bit :: "32 word \<Rightarrow> 32 word" where
  "crc32_bit c = (if bit c 0 then drop_bit 1 c XOR 0xEDB88320 else drop_bit 1 c)"

definition crc32_byte :: "32 word \<Rightarrow> char \<Rightarrow> 32 word" where
  "crc32_byte c b = (crc32_bit ^^ 8) (c XOR of_char b)"

definition zlib_crc32 :: "bytes \<Rightarrow> 32 word" where
  "zlib_crc32 bs = NOT (foldl crc32_byte (- 1) bs)"

text \<open>\<open>text.encode("latin-1")\<close> and \<open>data.decode("latin-1")\<close>.\<close>

definition latin1_encode :: "unicode \<Rightarrow> error + bytes" where
  "latin1_encode t = (if list_all (\<lambda>c. c < 256) t then Inr (map char_of t) else Inl UnicodeEncodeError)"

definition latin1_decode :: "bytes \<Rightarrow> unicode" where
  "latin1_decode bs = map of_char bs"

text \<open>
  \<open>text.encode("utf-8")\<close> and \<open>data.decode("utf-8")\<close>, both strict: a surrogate code
  point cannot be encoded, and the decoder refuses overlong forms, surrogates, code points
  above \<open>0x10FFFF\<close>, stray continuation bytes and truncated sequences.
\<close>

definition is_surrogate :: "nat \<Rightarrow> bool" where
  "is_surrogate c = (0xD800 \<le> c \<and> c \<le> 0xDFFF)"

definition utf8_encode_char :: "nat \<Rightarrow> bytes option" where
  "utf8_encode_char c =
     (if c < 0x80 then Some [char_of c]
      else if c < 0x800 then Some [char_of (0xC0 + c div 64), char_of (0x80 + c mod 64)]
      else if c < 0x10000 then
        (if is_surrogate c then None
         else Some [char_of (0xE0 + c div 4096), char_of (0x80 + c div 64 mod 64),
                    char_of (0x80 + c mod 64)])
      else if c < 0x110000 then
        Some [char_of (0xF0 + c div 262144), char_of (0x80 + c div 4096 mod 64),
              char_of (0x80 + c div 64 mod 64), char_of (0x80 + c mod 64)]
      else None)"

fun utf8_encode :: "unicode \<Rightarrow> error + bytes" where
  "utf8_encode [] = Inr []"
| "utf8_encode (c # cs) =
     (case utf8_encode_char c of
        None \<Rightarrow> Inl UnicodeEncodeError
      | Some bs \<Rightarrow> (case utf8_encode cs of Inl e \<Rightarrow> Inl e | Inr rest \<Rightarrow> Inr (bs @ rest)))"

definition is_cont :: "nat \<Rightarrow> bool" where
  "is_cont b = (0x80 \<le> b \<and> b < 0xC0)"

fun utf8_decode_nat :: "nat list \<Rightarrow> error + unicode" where
  "utf8_decode_nat [] = Inr []"
| "utf8_decode_nat (b0 # bs) =
     (if b0 < 0x80 then
        (case utf8_decode_nat bs of Inl e \<Rightarrow> Inl e | Inr t \<Rightarrow> Inr (b0 # t))
      else if 0xC2 \<le> b0 \<and> b0 < 0xE0 then
        (case bs of
           b1 # r \<Rightarrow>
             if is_cont b1 then
               (case utf8_decode_nat r of Inl e \<Rightarrow> Inl e
                | Inr t \<Rightarrow> Inr (((b0 - 0xC0) * 64 + (b1 - 0x80)) # t))
             else Inl UnicodeDecodeError
         | _ \<Rightarrow> Inl UnicodeDecodeError)
      else if 0xE0 \<le> b0 \<and> b0 < 0xF0 then
        (case bs of
           b1 # b2 # r \<Rightarrow>
             (let c = (b0 - 0xE0) * 4096 + (b1 - 0x80) * 64 + (b2 - 0x80) in
              if is_cont b1 \<and> is_cont b2 \<and> 0x800 \<le> c \<and> \<not> is_surrogate c then
                (case utf8_decode_nat r of Inl e \<Rightarrow> Inl e | Inr t \<Rightarrow> Inr (c # t))
              else Inl UnicodeDecodeError)
         | _ \<Rightarrow> Inl UnicodeDecodeError)
      else if 0xF0 \<le> b0 \<and> b0 < 0xF5 then
        (case bs of
           b1 # b2 # b3 # r \<Rightarrow>
             (let c = (b0 - 0xF0) * 262144 + (b1 - 0x80) * 4096 + (b2 - 0x80) * 64 + (b3 - 0x80) in
              if is_cont b1 \<and> is_cont b2 \<and> is_cont b3 \<and> 0x10000 \<le> c \<and> c < 0x110000 then
                (case utf8_decode_nat r of Inl e \<Rightarrow> Inl e | Inr t \<Rightarrow> Inr (c # t))
              else Inl UnicodeDecodeError)
         | _ \<Rightarrow> Inl UnicodeDecodeError)
      else Inl UnicodeDecodeError)"

definition utf8_decode :: "bytes \<Rightarrow> error + unicode" where
  "utf8_decode bs = utf8_decode_nat (map of_char bs)"

text \<open>
  A \<open>datetime\<close> value: its calendar fields as written, and the offset of its \<open>tzinfo\<close>
  from UTC in seconds (\<open>None\<close> for a naive value).
\<close>

record datetime =
  year :: nat
  month :: nat
  day :: nat
  hour :: nat
  minute :: nat
  second :: nat
  microsecond :: nat
  utcoffset :: "int option"

text \<open>
  The functions that the codecs take from the standard library and that depend on tables
  outside this repository are parameters: the JSON writer and reader for the metadata type
  \<open>'m\<close>; the Unicode character database's answers for code points beyond ASCII
  (\<open>u_alnum\<close> for \<open>str.isalnum\<close>, \<open>u_space\<close> for \<open>str.isspace\<close>, \<open>u_ci p c\<close> for
  "the character \<open>c\<close> matches the lower-case pattern letter \<open>p\<close> under
  \<open>re.IGNORECASE\<close>", \<open>u_lower\<close> for \<open>str.lower\<close> on a text that is not pure ASCII);
  the three tables of the \<open>html\<close> module (\<open>html.entities.html5\<close>,
  \<open>_invalid_charrefs\<close>, \<open>_invalid_codepoints\<close>); and \<open>datetime.fromisoformat\<close>, whose
  accepted spellings differ between Python versions (\<open>None\<close> is its \<open>ValueError\<close>).
\<close>

record 'm pylib =
  json_dumps :: "'m \<Rightarrow> error + unicode"
  json_loads :: "unicode \<Rightarrow> error + 'm"
  u_alnum :: "nat \<Rightarrow> bool"
  u_space :: "nat \<Rightarrow> bool"
  u_ci :: "nat \<Rightarrow> nat \<Rightarrow> bool"
  u_lower :: "unicode \<Rightarrow> unicode"
  html5 :: "unicode \<Rightarrow> unicode option"
  invalid_charrefs :: "nat \<Rightarrow> unicode option"
  invalid_codepoints :: "nat \<Rightarrow> bool"
  fromisoformat :: "unicode \<Rightarrow> datetime option"

section \<open>The raster codec (\<open>_png.py\<close>)\<close>

definition PNG_SIGNATURE :: bytes where
  "PNG_SIGNATURE = [CHR 0x89, CHR ''P'', CHR ''N'', CHR ''G'', CHR 0x0D, CHR 0x0A, CHR 0x1A, CHR 0x0A]"

definition METADATA_KEYWORD :: unicode where
  "METADATA_KEYWORD = str ''refig''"

definition word_bytes :: "32 word \<Rightarrow> error + bytes" where
  "word_bytes w = struct_pack_I (unat w)"

definition build_text_chunk :: "unicode \<Rightarrow> unicode \<Rightarrow> error + bytes" where
  "build_text_chunk keyword txt =
     and_then (latin1_encode keyword) (\<lambda>keyword_bytes.
     and_then (utf8_encode txt) (\<lambda>text_bytes.
     let chunk_data = keyword_bytes @ [CHR 0x00] @ text_bytes;
         chunk_type = ''tEXt''
     in and_then (struct_pack_I (length chunk_data)) (\<lambda>len.
        and_then (word_bytes (zlib_crc32 (chunk_type @ chunk_data) AND 0xFFFFFFFF)) (\<lambda>crc.
        Inr (len @ chunk_type @ chunk_data @ crc)))))"

definition embed_png_metadata :: "('m, 'x) pylib_scheme \<Rightarrow> bytes \<Rightarrow> 'm \<Rightarrow> error + bytes" where
  "embed_png_metadata L png_bytes metadata =
     (if \<not> startswith png_bytes PNG_SIGNATURE
      then Inl (PNGMetadataError ''Input data does not look like a PNG image.'')
      else and_then (json_dumps L metadata) (\<lambda>payload.
           and_then (build_text_chunk METADATA_KEYWORD payload) (\<lambda>chunk.
           Inr (PNG_SIGNATURE @ chunk @ drop (length PNG_SIGNATURE) png_bytes))))"

text \<open>
  \<open>_iter_chunks\<close> is a generator: it yields chunks one at a time, and the exception of
  \<open>struct.unpack\<close> on a short length field is raised only when the consumer asks for the
  chunk after the last complete one.
\<close>

datatype 'a gen = Stop | Raise error | Yield 'a "'a gen"

type_synonym chunk = "bytes \<times> bytes"

function iter_chunks_at :: "bytes \<Rightarrow> nat \<Rightarrow> chunk gen" where
  "iter_chunks_at png_bytes index =
     (let length_bytes = slice png_bytes index (index + 4) in
      if length_bytes = [] then Stop
      else case struct_unpack_I length_bytes of
             Inl e \<Rightarrow> Raise e
           | Inr len \<Rightarrow>
               Yield (slice png_bytes (index + 4) (index + 8),
                      slice png_bytes (index + 8) (index + 8 + len))
                 (if index + 8 + len + 4 \<ge> length png_bytes then Stop
                  else iter_chunks_at png_bytes (index + 8 + len + 4)))"
  by pat_completeness auto
termination
  by (relation "measure (\<lambda>(bs, i). length bs - i)") auto

definition iter_chunks :: "bytes \<Rightarrow> chunk gen" where
  "iter_chunks png_bytes = iter_chunks_at png_bytes (length PNG_SIGNATURE)"

text \<open>\<open>chunk_data.partition(b"\x00")\<close>, of which the source uses the first and last part.\<close>

definition partition_nul :: "bytes \<Rightarrow> bytes \<times> bytes" where
  "partition_nul chunk_data =
     (takeWhile (\<lambda>b. b \<noteq> CHR 0x00) chunk_data,
      drop 1 (dropWhile (\<lambda>b. b \<noteq> CHR 0x00) chunk_data))"

definition split_text_chunk :: "bytes \<Rightarrow> error + unicode \<times> unicode" where
  "split_text_chunk chunk_data =
     (case partition_nul chunk_data of (keyword, txt) \<Rightarrow>
        if keyword = [] then Inl (PNGMetadataError ''Invalid tEXt chunk encountered.'')
        else and_then (utf8_decode txt) (\<lambda>t. Inr (latin1_decode keyword, t)))"

fun extract_loop :: "('m, 'x) pylib_scheme \<Rightarrow> chunk gen \<Rightarrow> error + 'm" where
  "extract_loop L Stop = Inl (PNGMetadataError ''No refig metadata found in the provided image.'')"
| "extract_loop L (Raise e) = Inl e"
| "extract_loop L (Yield (chunk_type, chunk_data) chunks) =
     (if chunk_type = ''tEXt'' then
        (case split_text_chunk chunk_data of Inl e \<Rightarrow> Inl e
         | Inr (keyword, txt) \<Rightarrow>
             if keyword = METADATA_KEYWORD then json_loads L txt
             else extract_loop L chunks)
      else extract_loop L chunks)"

definition extract_png_metadata :: "('m, 'x) pylib_scheme \<Rightarrow> bytes \<Rightarrow> error + 'm" where
  "extract_png_metadata L png_bytes =
     (if \<not> startswith png_bytes PNG_SIGNATURE
      then Inl (PNGMetadataError ''Input data does not look like a PNG image.'')
      else extract_loop L (iter_chunks png_bytes))"

section \<open>Library functions of the markup codec\<close>

text \<open>Character classes of \<open>str\<close> methods and of the \<open>re\<close> module.\<close>

definition ascii_alnum :: "nat \<Rightarrow> bool" where
  "ascii_alnum c = ((48 \<le> c \<and> c \<le> 57) \<or> (65 \<le> c \<and> c \<le> 90) \<or> (97 \<le> c \<and> c \<le> 122))"

definition py_isalnum :: "('m, 'x) pylib_scheme \<Rightarrow> nat \<Rightarrow> bool" where
  "py_isalnum L c = (if c < 128 then ascii_alnum c else u_alnum L c)"

definition py_isspace :: "('m, 'x) pylib_scheme \<Rightarrow> nat \<Rightarrow> bool" where
  "py_isspace L c =
     (if c < 128 then c \<in> {9, 10, 11, 12, 13, 28, 29, 30, 31, 32} else u_space L c)"

text \<open>\<open>s.strip()\<close>.\<close>

definition strip :: "('m, 'x) pylib_scheme \<Rightarrow> unicode \<Rightarrow> unicode" where
  "strip L s = rev (dropWhile (py_isspace L) (rev (dropWhile (py_isspace L) s)))"

text \<open>\<open>\w\<close> of a \<open>str\<close> pattern: alphanumeric or the underscore.\<close>

definition is_word :: "('m, 'x) pylib_scheme \<Rightarrow> nat \<Rightarrow> bool" where
  "is_word L c = (c = 95 \<or> py_isalnum L c)"

text \<open>
  \<open>\b\<close> between two neighbouring positions, \<open>None\<close> standing for the start or the end of
  the text: exactly one side is a word character.
\<close>

definition word_boundary :: "('m, 'x) pylib_scheme \<Rightarrow> nat option \<Rightarrow> nat option \<Rightarrow> bool" where
  "word_boundary L prev nxt =
     ((case prev of None \<Rightarrow> False | Some c \<Rightarrow> is_word L c)
      \<noteq> (case nxt of None \<Rightarrow> False | Some c \<Rightarrow> is_word L c))"

text \<open>
  A literal character \<open>p\<close> of a pattern compiled with \<open>re.IGNORECASE\<close> (the patterns of
  \<open>_svg.py\<close> are written in lower case) against the character \<open>c\<close> of the text.
\<close>

definition ci_match :: "('m, 'x) pylib_scheme \<Rightarrow> nat \<Rightarrow> nat \<Rightarrow> bool" where
  "ci_match L p c =
     (c = p \<or> (97 \<le> p \<and> p \<le> 122 \<and> (if c < 128 then c + 32 = p else u_ci L p c)))"

definition match_lit :: "('m, 'x) pylib_scheme \<Rightarrow> unicode \<Rightarrow> unicode \<Rightarrow> bool" where
  "match_lit L p s = (length p \<le> length s \<and> list_all2 (ci_match L) p (take (length p) s))"

text \<open>\<open>html.escape(s)\<close> with its default \<open>quote=True\<close>: five replacements, \<open>&\<close> first.\<close>

definition replace_char :: "nat \<Rightarrow> unicode \<Rightarrow> unicode \<Rightarrow> unicode" where
  "replace_char c r s = concat (map (\<lambda>x. if x = c then r else [x]) s)"

definition html_escape :: "unicode \<Rightarrow> unicode" where
  "html_escape s =
     replace_char 39 (str ''&#x27;'')
       (replace_char 34 (str ''&quot;'')
         (replace_char 62 (str ''&gt;'')
           (replace_char 60 (str ''&lt;'')
             (replace_char 38 (str ''&amp;'') s))))"

text \<open>
  \<open>html.unescape(s)\<close>: every match of
  \<open>&(#[0-9]+;?|#[xX][0-9a-fA-F]+;?|[^\t\n\f <&#;]{1,32};?)\<close> is replaced by
  \<open>_replace_charref\<close>. \<open>charref_length\<close> is the length of the group after the \<open>&\<close>
  (0 when the pattern does not match there).
\<close>

definition is_digit :: "nat \<Rightarrow> bool" where
  "is_digit c = (48 \<le> c \<and> c \<le> 57)"

definition is_hexdigit :: "nat \<Rightarrow> bool" where
  "is_hexdigit c = (is_digit c \<or> (65 \<le> c \<and> c \<le> 70) \<or> (97 \<le> c \<and> c \<le> 102))"

definition is_name_char :: "nat \<Rightarrow> bool" where
  "is_name_char c = (c \<notin> {9, 10, 12, 32, 60, 38, 35, 59})"

definition semicolon_after :: "nat \<Rightarrow> unicode \<Rightarrow> nat" where
  "semicolon_after n s = (if n < length s \<and> s ! n = 59 then n + 1 else n)"

definition charref_length :: "unicode \<Rightarrow> nat" where
  "charref_length s =
     (let dec = takeWhile is_digit (drop 1 s);
          hex = takeWhile is_hexdigit (drop 2 s);
          name = takeWhile is_name_char (take 32 s)
      in if take 1 s = [35] \<and> dec \<noteq> [] then semicolon_after (1 + length dec) s
         else if take 1 s = [35] \<and> (take 1 (drop 1 s) = [120] \<or> take 1 (drop 1 s) = [88]) \<and> hex \<noteq> []
           then semicolon_after (2 + length hex) s
         else if name \<noteq> [] then semicolon_after (length name) s
         else 0)"

definition digit_value :: "nat \<Rightarrow> nat" where
  "digit_value c = (if is_digit c then c - 48 else if 97 \<le> c then c - 87 else c - 55)"

definition int_of_digits :: "nat \<Rightarrow> unicode \<Rightarrow> nat" where
  "int_of_digits base ds = foldl (\<lambda>acc d. acc * base + digit_value d) 0 ds"

definition rstrip_semicolon :: "unicode \<Rightarrow> unicode" where
  "rstrip_semicolon s = rev (dropWhile (\<lambda>c. c = 59) (rev s))"

fun longest_name :: "('m, 'x) pylib_scheme \<Rightarrow> unicode \<Rightarrow> nat \<Rightarrow> unicode" where
  "longest_name L s 0 = 38 # s"
| "longest_name L s (Suc x) =
     (if Suc x \<le> 1 then 38 # s
      else case html5 L (take (Suc x) s) of
             Some r \<Rightarrow> r @ drop (Suc x) s
           | None \<Rightarrow> longest_name L s x)"

definition replace_charref :: "('m, 'x) pylib_scheme \<Rightarrow> unicode \<Rightarrow> unicode" where
  "replace_charref L s =
     (if take 1 s = [35] then
        (let num = (if take 1 (drop 1 s) = [120] \<or> take 1 (drop 1 s) = [88]
                    then int_of_digits 16 (rstrip_semicolon (drop 2 s))
                    else int_of_digits 10 (rstrip_semicolon (drop 1 s)))
         in case invalid_charrefs L num of
              Some r \<Rightarrow> r
            | None \<Rightarrow>
                if is_surrogate num \<or> num > 0x10FFFF then [0xFFFD]
                else if invalid_codepoints L num then []
                else [num])
      else case html5 L s of
             Some r \<Rightarrow> r
           | None \<Rightarrow> longest_name L s (length s - 1))"

function html_unescape :: "('m, 'x) pylib_scheme \<Rightarrow> unicode \<Rightarrow> unicode" where
  "html_unescape L [] = []"
| "html_unescape L (c # cs) =
     (if c = 38 \<and> charref_length cs > 0
      then replace_charref L (take (charref_length cs) cs)
             @ html_unescape L (drop (charref_length cs) cs)
      else c # html_unescape L cs)"
  by pat_completeness auto
termination
  by (relation "measure (\<lambda>(L, s). length s)") auto

text \<open>
  The entries of the tables that the output of \<open>html.escape\<close> is read back with; they hold
  in CPython.
\<close>

definition html_tables_ok :: "('m, 'x) pylib_scheme \<Rightarrow> bool" where
  "html_tables_ok L =
     (html5 L (str ''amp;'') = Some [38] \<and> html5 L (str ''lt;'') = Some [60]
      \<and> html5 L (str ''gt;'') = Some [62] \<and> html5 L (str ''quot;'') = Some [34]
      \<and> invalid_charrefs L 39 = None \<and> \<not> invalid_codepoints L 39)"

section \<open>The markup codec (\<open>_svg.py\<close>)\<close>

text \<open>
  \<open>_METADATA_PATTERN\<close> is
  \<open><metadata\b[^>]*\bid=(?P<quote>['"])refig(?P=quote)[^>]*>(?P<body>.*?)</metadata>\<close>
  with \<open>DOTALL\<close> and \<open>IGNORECASE\<close>. Neither \<open>[^>]*\<close> can cross a \<open>>\<close>, so the opening
  tag ends at the first \<open>>\<close> after \<open><metadata\<close>, and the pattern matches at a position
  exactly when the text between \<open><metadata\<close> and that \<open>>\<close> holds an attribute
  \<open>id="refig"\<close> or \<open>id='refig'\<close> that starts at a word boundary, and a closing tag follows;
  the lazy body ends at the first closing tag.
\<close>

definition id_attr_here :: "('m, 'x) pylib_scheme \<Rightarrow> unicode \<Rightarrow> bool" where
  "id_attr_here L s =
     (match_lit L (str ''id='') s \<and>
      (case drop 3 s of
         [] \<Rightarrow> False
       | q # r \<Rightarrow> (q = 34 \<or> q = 39) \<and> match_lit L (str ''refig'') r \<and>
                  (case drop 5 r of [] \<Rightarrow> False | q' # r' \<Rightarrow> q' = q)))"

fun id_attr_in :: "('m, 'x) pylib_scheme \<Rightarrow> nat option \<Rightarrow> unicode \<Rightarrow> bool" where
  "id_attr_in L prev [] = False"
| "id_attr_in L prev (c # cs) =
     ((word_boundary L prev (Some c) \<and> id_attr_here L (c # cs)) \<or> id_attr_in L (Some c) cs)"

text \<open>
  The length of the opening tag that starts the text, when there is one: \<open>tag\<close> is the
  text before the first \<open>>\<close>, which no character of \<open><metadata\<close> or of the attribute can
  match.
\<close>

definition open_tag_at :: "('m, 'x) pylib_scheme \<Rightarrow> unicode \<Rightarrow> nat option" where
  "open_tag_at L s =
     (let tag = takeWhile (\<lambda>c. c \<noteq> 62) s
      in if length tag < length s
            \<and> match_lit L (str ''<metadata'') tag
            \<and> word_boundary L (Some (tag ! 8)) (Some ((tag @ [62]) ! 9))
            \<and> id_attr_in L (Some (tag ! 8)) (drop 9 tag)
         then Some (length tag + 1) else None)"

fun find_close :: "('m, 'x) pylib_scheme \<Rightarrow> unicode \<Rightarrow> nat option" where
  "find_close L [] = None"
| "find_close L (c # cs) =
     (if match_lit L (str ''</metadata>'') (c # cs) then Some 0
      else map_option Suc (find_close L cs))"

text \<open>The span of the body, from the start of the match, when the pattern matches here.\<close>

definition metadata_match_at :: "('m, 'x) pylib_scheme \<Rightarrow> unicode \<Rightarrow> (nat \<times> nat) option" where
  "metadata_match_at L s =
     (case open_tag_at L s of
        None \<Rightarrow> None
      | Some b \<Rightarrow> (case find_close L (drop b s) of None \<Rightarrow> None | Some k \<Rightarrow> Some (b, b + k)))"

text \<open>
  \<open>pattern.search(text)\<close> tries the positions from left to right: \<open>first_match\<close> gives the
  first position where the pattern matches, with what the match returns there.
\<close>

fun first_match :: "(unicode \<Rightarrow> 'a option) \<Rightarrow> unicode \<Rightarrow> (nat \<times> 'a) option" where
  "first_match m [] = None"
| "first_match m (c # cs) =
     (case m (c # cs) of
        Some r \<Rightarrow> Some (0, r)
      | None \<Rightarrow> map_option (\<lambda>(i, r). (Suc i, r)) (first_match m cs))"

text \<open>\<open>_METADATA_PATTERN.search(text)\<close>: the span of the body of the leftmost match.\<close>

definition metadata_search :: "('m, 'x) pylib_scheme \<Rightarrow> unicode \<Rightarrow> (nat \<times> nat) option" where
  "metadata_search L txt =
     map_option (\<lambda>(i, (b, e)). (i + b, i + e)) (first_match (metadata_match_at L) txt)"

text \<open>
  \<open>_SVG_OPEN_TAG_PATTERN\<close> is \<open><svg\b[^>]*>\<close> with \<open>IGNORECASE\<close>;
  \<open>svg_search\<close> is the end of its leftmost match.
\<close>

definition svg_tag_at :: "('m, 'x) pylib_scheme \<Rightarrow> unicode \<Rightarrow> nat option" where
  "svg_tag_at L s =
     (let tag = takeWhile (\<lambda>c. c \<noteq> 62) s
      in if length tag < length s
            \<and> match_lit L (str ''<svg'') tag
            \<and> word_boundary L (Some (tag ! 3)) (Some ((tag @ [62]) ! 4))
         then Some (length tag + 1) else None)"

definition svg_search :: "('m, 'x) pylib_scheme \<Rightarrow> unicode \<Rightarrow> nat option" where
  "svg_search L txt = map_option (\<lambda>(i, n). i + n) (first_match (svg_tag_at L) txt)"

definition svg_utf8_decode :: "bytes \<Rightarrow> error + unicode" where
  "svg_utf8_decode svg_bytes =
     (case utf8_decode svg_bytes of
        Inl e \<Rightarrow> Inl (SVGMetadataError ''SVG data is not valid UTF-8.'')
      | Inr t \<Rightarrow> Inr t)"

definition embed_svg_metadata :: "('m, 'x) pylib_scheme \<Rightarrow> bytes \<Rightarrow> 'm \<Rightarrow> error + bytes" where
  "embed_svg_metadata L svg_bytes metadata =
     and_then (svg_utf8_decode svg_bytes) (\<lambda>txt.
     and_then (json_dumps L metadata) (\<lambda>payload.
     let escaped_payload = html_escape payload in
     case metadata_search L txt of
       Some (start, end) \<Rightarrow>
         utf8_encode (take start txt @ escaped_payload @ drop end txt)
     | None \<Rightarrow>
         (case svg_search L txt of
            None \<Rightarrow> Inl (SVGMetadataError ''Unable to locate <svg> root element in SVG document.'')
          | Some index \<Rightarrow>
              utf8_encode (take index txt
                @ (str [CHR 0x0A, CHR '' '', CHR '' ''] @ str ''<metadata id='' @ [34] @ str ''refig''
                   @ [34] @ str ''>'' @ escaped_payload @ str ''</metadata>'' @ str [CHR 0x0A])
                @ drop index txt))))"

definition extract_svg_metadata :: "('m, 'x) pylib_scheme \<Rightarrow> bytes \<Rightarrow> error + 'm" where
  "extract_svg_metadata L svg_bytes =
     and_then (svg_utf8_decode svg_bytes) (\<lambda>txt.
     case metadata_search L txt of
       None \<Rightarrow> Inl (SVGMetadataError ''No refig metadata found in the provided SVG.'')
     | Some (start, end) \<Rightarrow>
         (let payload = strip L (html_unescape L (slice txt start end))
          in if payload = [] then Inl (SVGMetadataError ''Refig metadata block is empty.'')
             else json_loads L payload))"

section \<open>The orchestrator (\<open>_core.py\<close>)\<close>

text \<open>
  The values a metadata record holds, and the record itself: a Python \<open>dict\<close> keeps its
  keys in insertion order, so it is an association list with distinct keys.
\<close>

datatype pyval = PNone | PBool bool | PInt int | PStr unicode | PDatetime datetime

type_synonym metadata = "(unicode \<times> pyval) list"

fun dict_set :: "metadata \<Rightarrow> unicode \<Rightarrow> pyval \<Rightarrow> metadata" where
  "dict_set [] k v = [(k, v)]"
| "dict_set ((k', v') # m) k v = (if k' = k then (k, v) # m else (k', v') # dict_set m k v)"

fun dict_update :: "metadata \<Rightarrow> metadata \<Rightarrow> metadata" where
  "dict_update m [] = m"
| "dict_update m ((k, v) # extra) = dict_update (dict_set m k v) extra"

text \<open>\<open>metadata.get(key)\<close>: \<open>None\<close> for a missing key.\<close>

definition dict_get :: "metadata \<Rightarrow> unicode \<Rightarrow> pyval" where
  "dict_get m k = (case map_of m k of None \<Rightarrow> PNone | Some v \<Rightarrow> v)"

text \<open>
  Paths are lists of components. \<open>Path(name)\<close> splits at \<open>/\<close> and drops empty and
  \<open>.\<close> components; \<open>name\<close>, \<open>suffix\<close> and \<open>stem\<close> are those of \<open>pathlib.PurePosixPath\<close>.
\<close>

type_synonym path = "unicode list"

fun split_on :: "nat \<Rightarrow> unicode \<Rightarrow> unicode list" where
  "split_on sep [] = [[]]"
| "split_on sep (c # cs) =
     (if c = sep then [] # split_on sep cs
      else (case split_on sep cs of [] \<Rightarrow> [[c]] | p # ps \<Rightarrow> (c # p) # ps))"

definition path_parts :: "unicode \<Rightarrow> path" where
  "path_parts s = filter (\<lambda>p. p \<noteq> [] \<and> p \<noteq> [46]) (split_on 47 s)"

definition path_name :: "unicode \<Rightarrow> unicode" where
  "path_name s = (if path_parts s = [] then [] else last (path_parts s))"

definition rfind :: "nat \<Rightarrow> unicode \<Rightarrow> nat option" where
  "rfind c s =
     (if c \<in> set s then Some (length s - 1 - length (takeWhile (\<lambda>x. x \<noteq> c) (rev s))) else None)"

definition path_suffix :: "unicode \<Rightarrow> unicode" where
  "path_suffix s =
     (let name = path_name s in
      case rfind 46 name of
        None \<Rightarrow> []
      | Some i \<Rightarrow> if 0 < i \<and> i < length name - 1 then drop i name else [])"

definition path_stem :: "unicode \<Rightarrow> unicode" where
  "path_stem s =
     (let name = path_name s in
      case rfind 46 name of
        None \<Rightarrow> name
      | Some i \<Rightarrow> if 0 < i \<and> i < length name - 1 then take i name else name)"

text \<open>\<open>directory / segment\<close> for a segment that does not start with \<open>/\<close>.\<close>

definition joinpath :: "path \<Rightarrow> unicode \<Rightarrow> path" where
  "joinpath p s = p @ path_parts s"

definition ascii_lower :: "nat \<Rightarrow> nat" where
  "ascii_lower c = (if 65 \<le> c \<and> c \<le> 90 then c + 32 else c)"

definition py_lower :: "('m, 'x) pylib_scheme \<Rightarrow> unicode \<Rightarrow> unicode" where
  "py_lower L s = (if list_all (\<lambda>c. c < 128) s then map ascii_lower s else u_lower L s)"

definition BASE_DIR :: path where
  "BASE_DIR = [str ''figures'']"

definition LATEST_DIR :: path where
  "LATEST_DIR = joinpath BASE_DIR (str ''latest'')"

definition HISTORY_DIR :: path where
  "HISTORY_DIR = joinpath BASE_DIR (str ''history'')"

definition PNG_EXT :: unicode where
  "PNG_EXT = str ''.png''"

definition SVG_EXT :: unicode where
  "SVG_EXT = str ''.svg''"

definition SUPPORTED_EXTENSIONS :: "unicode list" where
  "SUPPORTED_EXTENSIONS = [PNG_EXT, SVG_EXT]"

text \<open>
  Decimal numerals and \<open>strftime("%Y%m%dT%H%M%S")\<close>. \<open>%Y\<close> is written with four digits
  as the Python documentation gives it (for a year below 1000 the C library decides).
  \<open>isoformat()\<close> is the default form, with microseconds and offset only when present.
\<close>

fun digits10 :: "nat \<Rightarrow> unicode" where
  "digits10 n = (if n < 10 then [48 + n] else digits10 (n div 10) @ [48 + n mod 10])"

definition zero_pad :: "nat \<Rightarrow> nat \<Rightarrow> unicode" where
  "zero_pad w n = replicate (w - length (digits10 n)) 48 @ digits10 n"

definition strftime_compact :: "datetime \<Rightarrow> unicode" where
  "strftime_compact d =
     zero_pad 4 (year d) @ zero_pad 2 (month d) @ zero_pad 2 (day d) @ str ''T''
     @ zero_pad 2 (hour d) @ zero_pad 2 (minute d) @ zero_pad 2 (second d)"

definition isoformat :: "datetime \<Rightarrow> unicode" where
  "isoformat d =
     zero_pad 4 (year d) @ str ''-'' @ zero_pad 2 (month d) @ str ''-'' @ zero_pad 2 (day d)
     @ str ''T'' @ zero_pad 2 (hour d) @ str '':'' @ zero_pad 2 (minute d) @ str '':''
     @ zero_pad 2 (second d)
     @ (if microsecond d \<noteq> 0 then str ''.'' @ zero_pad 6 (microsecond d) else [])
     @ (case utcoffset d of
          None \<Rightarrow> []
        | Some off \<Rightarrow>
            (if off < 0 then str ''-'' else str ''+'')
            @ zero_pad 2 (nat \<bar>off\<bar> div 3600) @ str '':'' @ zero_pad 2 (nat \<bar>off\<bar> div 60 mod 60)
            @ (if nat \<bar>off\<bar> mod 60 \<noteq> 0 then str '':'' @ zero_pad 2 (nat \<bar>off\<bar> mod 60) else []))"

text \<open>
  What the process sees of the world outside: the clock at the two places that read it,
  the call stack, the optional providers, and the rendering engine. A figure is modelled
  by its \<open>savefig\<close> method, from the output format to the rendered bytes.
\<close>

type_synonym figure = "unicode \<Rightarrow> error + bytes"

record runtime =
  clock :: datetime
  clock_later :: datetime
  stack :: "unicode list"
  is_library_path :: "unicode \<Rightarrow> bool"
  resolve :: "unicode \<Rightarrow> unicode option"
  get_ipython :: "error + pyval option"
  git_rev_parse :: "error + unicode"
  package_version :: "unicode option"
  gcf :: "error + figure option"

definition replace_tzinfo_utc :: "datetime \<Rightarrow> datetime" where
  "replace_tzinfo_utc parsed =
     (if utcoffset parsed = None then parsed\<lparr>utcoffset := Some 0\<rparr> else parsed)"

definition format_timestamp_token :: "('m, 'x) pylib_scheme \<Rightarrow> datetime \<Rightarrow> pyval \<Rightarrow> unicode" where
  "format_timestamp_token L now v =
     (case v of
        PStr s \<Rightarrow>
          (case fromisoformat L s of
             None \<Rightarrow>
               (let sanitized = filter (py_isalnum L) s
                in if sanitized \<noteq> [] then sanitized else strftime_compact now)
           | Some parsed \<Rightarrow> strftime_compact (replace_tzinfo_utc parsed))
      | PDatetime d \<Rightarrow> strftime_compact (replace_tzinfo_utc d)
      | _ \<Rightarrow> strftime_compact (replace_tzinfo_utc now))"

definition format_git_hash :: "('m, 'x) pylib_scheme \<Rightarrow> pyval \<Rightarrow> unicode" where
  "format_git_hash L v =
     (case v of
        PStr s \<Rightarrow>
          if s \<noteq> [] then take 7 (if strip L s \<noteq> [] then strip L s else str ''nogit'')
          else str ''nogit''
      | _ \<Rightarrow> str ''nogit'')"

definition build_history_path ::
  "('m, 'x) pylib_scheme \<Rightarrow> datetime \<Rightarrow> unicode \<Rightarrow> metadata \<Rightarrow> path" where
  "build_history_path L now name md =
     (let stem = path_stem name;
          figure_dir = joinpath HISTORY_DIR stem;
          timestamp_token = format_timestamp_token L now (dict_get md (str ''created_at''));
          git_hash = format_git_hash L (dict_get md (str ''git_commit''));
          suffix = py_lower L (path_suffix name);
          suffix = (if suffix \<notin> set SUPPORTED_EXTENSIONS then PNG_EXT else suffix);
          history_name = str ''_'' @ timestamp_token @ str ''_'' @ git_hash @ suffix
      in joinpath figure_dir history_name)"

fun source_loop :: "('r) runtime_scheme \<Rightarrow> unicode list \<Rightarrow> pyval" where
  "source_loop R [] = PNone"
| "source_loop R (filename # frames) =
     (if startswith filename (str ''<'') then source_loop R frames
      else if is_library_path R filename then source_loop R frames
      else (case resolve R filename of Some p \<Rightarrow> PStr p | None \<Rightarrow> PStr filename))"

definition infer_source_path :: "('r) runtime_scheme \<Rightarrow> pyval" where
  "infer_source_path R = source_loop R (rev (butlast (stack R)))"

definition infer_cell_number :: "('r) runtime_scheme \<Rightarrow> pyval" where
  "infer_cell_number R =
     (case get_ipython R of
        Inl e \<Rightarrow> PNone
      | Inr None \<Rightarrow> PNone
      | Inr (Some count) \<Rightarrow> count)"

definition infer_git_commit :: "('m, 'x) pylib_scheme \<Rightarrow> ('r) runtime_scheme \<Rightarrow> error + pyval" where
  "infer_git_commit L R =
     (case git_rev_parse R of
        Inl e \<Rightarrow> if e = CalledProcessError \<or> e = FileNotFoundError then Inr PNone else Inl e
      | Inr out \<Rightarrow> Inr (if strip L out \<noteq> [] then PStr (strip L out) else PNone))"

definition get_refig_version :: "('r) runtime_scheme \<Rightarrow> pyval" where
  "get_refig_version R = (case package_version R of None \<Rightarrow> PNone | Some v \<Rightarrow> PStr v)"

definition build_metadata ::
  "('m, 'x) pylib_scheme \<Rightarrow> ('r) runtime_scheme \<Rightarrow> unicode \<Rightarrow> metadata option \<Rightarrow> error + metadata" where
  "build_metadata L R name extra =
     (let timestamp = clock R;
          source = infer_source_path R;
          cell_number = infer_cell_number R
      in and_then (infer_git_commit L R) (\<lambda>git_commit.
         let md = [(str ''figure'', PStr (path_name name)),
                   (str ''created_at'', PStr (isoformat timestamp)),
                   (str ''source'', source),
                   (str ''cell_number'', cell_number),
                   (str ''git_commit'', git_commit),
                   (str ''refig_version'', get_refig_version R)]
         in Inr (case extra of None \<Rightarrow> md | Some e \<Rightarrow> dict_update md e)))"

definition resolve_figure :: "('r) runtime_scheme \<Rightarrow> figure option \<Rightarrow> error + figure" where
  "resolve_figure R fig =
     (case fig of
        Some f \<Rightarrow> Inr f
      | None \<Rightarrow>
          (case gcf R of
             Inl e \<Rightarrow> Inl (RuntimeError ''matplotlib is required to save figures with refig.'' (Some e))
           | Inr None \<Rightarrow> Inl (RuntimeError ''No active matplotlib figure is available to save.'' None)
           | Inr (Some f) \<Rightarrow> Inr f))"

text \<open>\<open>kwargs.setdefault("format", image_format)\<close>, then the figure renders.\<close>

definition render_figure :: "figure \<Rightarrow> unicode \<Rightarrow> unicode option \<Rightarrow> error + bytes" where
  "render_figure fig image_format kw_format =
     fig (case kw_format of None \<Rightarrow> image_format | Some f \<Rightarrow> f)"

text \<open>
  The file system maps a path to a file or a directory. \<open>mkdir(parents=True,
  exist_ok=True)\<close> creates the missing directories from the top and fails at a component
  that is a file; \<open>write_bytes\<close> fails on a directory. Both return the file system as they
  leave it, also when they fail.
\<close>

datatype node = File bytes | Dir

type_synonym fs = "path \<Rightarrow> node option"

fun mkdir_parents :: "fs \<Rightarrow> path \<Rightarrow> path \<Rightarrow> error option \<times> fs" where
  "mkdir_parents f pre [] = (None, f)"
| "mkdir_parents f pre (c # cs) =
     (case f (pre @ [c]) of
        Some (File b) \<Rightarrow> (Some OSError, f)
      | Some Dir \<Rightarrow> mkdir_parents f (pre @ [c]) cs
      | None \<Rightarrow> mkdir_parents (f(pre @ [c] \<mapsto> Dir)) (pre @ [c]) cs)"

definition write_bytes :: "fs \<Rightarrow> path \<Rightarrow> bytes \<Rightarrow> error option \<times> fs" where
  "write_bytes f p payload =
     (case mkdir_parents f [] (butlast p) of
        (Some e, f') \<Rightarrow> (Some e, f')
      | (None, f') \<Rightarrow>
          (case f' p of
             Some Dir \<Rightarrow> (Some OSError, f')
           | _ \<Rightarrow> (None, f'(p \<mapsto> File payload))))"

record SaveResult =
  latest_path :: path
  history_path :: path
  result_metadata :: metadata

definition unsupported_message :: "unicode \<Rightarrow> unicode" where
  "unsupported_message suffix =
     str ''Unsupported file extension '' @ [39] @ suffix @ [39] @ str ''. Supported: .png, .svg''"

definition wrap_embed_error :: "error \<Rightarrow> error" where
  "wrap_embed_error e =
     (if is_FormatError e then RuntimeError ''Failed to embed metadata into figure output.'' (Some e)
      else e)"

definition savefig ::
  "(metadata, 'x) pylib_scheme \<Rightarrow> ('r) runtime_scheme \<Rightarrow> unicode \<Rightarrow> figure option
     \<Rightarrow> metadata option \<Rightarrow> unicode option \<Rightarrow> fs \<Rightarrow> (error + SaveResult) \<times> fs" where
  "savefig L R name fig extra kw_format f =
     (let suffix = py_lower L (path_suffix name) in
      if suffix \<notin> set SUPPORTED_EXTENSIONS then (Inl (ValueError (unsupported_message suffix)), f)
      else
        case resolve_figure R fig of Inl e \<Rightarrow> (Inl e, f) | Inr figure_obj \<Rightarrow>
       (case build_metadata L R name extra of Inl e \<Rightarrow> (Inl e, f) | Inr metadata_payload \<Rightarrow>
       (case render_figure figure_obj (dropWhile (\<lambda>c. c = 46) suffix) kw_format of
          Inl e \<Rightarrow> (Inl e, f) | Inr image_bytes \<Rightarrow>
       (case (if suffix = PNG_EXT then embed_png_metadata L image_bytes metadata_payload
              else embed_svg_metadata L image_bytes metadata_payload) of
          Inl e \<Rightarrow> (Inl (wrap_embed_error e), f)
        | Inr embedded \<Rightarrow>
            (let latest = joinpath LATEST_DIR (path_name name);
                 history = build_history_path L (clock_later R) name metadata_payload
             in case write_bytes f latest embedded of
                  (Some e, f1) \<Rightarrow> (Inl e, f1)
                | (None, f1) \<Rightarrow>
                    (case write_bytes f1 history embedded of
                       (Some e, f2) \<Rightarrow> (Inl e, f2)
                     | (None, f2) \<Rightarrow>
                         (Inr \<lparr>latest_path = latest, history_path = history,
                               result_metadata = metadata_payload\<rparr>, f2)))))))"

definition load_metadata :: "(metadata, 'x) pylib_scheme \<Rightarrow> fs \<Rightarrow> path \<Rightarrow> error + metadata" where
  "load_metadata L f p =
     (case f p of
        Some (File data) \<Rightarrow>
          (case (if startswith data PNG_SIGNATURE then extract_png_metadata L data
                 else extract_svg_metadata L data) of
             Inl e \<Rightarrow> Inl (if is_FormatError e
                           then RuntimeError ''Unable to read refig metadata from the file'' (Some e)
                           else e)
           | Inr m \<Rightarrow> Inr m)
      | _ \<Rightarrow> Inl OSError)"

declare iter_chunks_at.simps [simp del]

definition encodable :: "nat \<Rightarrow> bool" where
  "encodable c = (c < 0x110000 \<and> \<not> is_surrogate c)"


section \<open>An example library\<close>

text \<open>
  A concrete library and runtime for evaluating the code on examples. No code point beyond
  ASCII is alphanumeric, whitespace or a case variant of an ASCII letter. The JSON writer
  covers records whose values are \<open>None\<close>, booleans, integers and strings of printable
  ASCII without quote or backslash, in the compact form with sorted keys; the JSON reader
  knows the example records. \<open>fromisoformat\<close> reads the form
  \<open>YYYY-MM-DDTHH:MM:SS\<close> with an optional offset \<open>+HH:MM\<close> or \<open>-HH:MM\<close>.
\<close>

definition join_with :: "unicode \<Rightarrow> unicode list \<Rightarrow> unicode" where
  "join_with sep xs = (case xs of [] \<Rightarrow> [] | x # r \<Rightarrow> x @ concat (map (\<lambda>y. sep @ y) r))"

definition json_quote :: "unicode \<Rightarrow> unicode option" where
  "json_quote s =
     (if list_all (\<lambda>c. 32 \<le> c \<and> c < 127 \<and> c \<noteq> 34 \<and> c \<noteq> 92) s then Some ([34] @ s @ [34]) else None)"

definition json_value :: "pyval \<Rightarrow> unicode option" where
  "json_value v =
     (case v of
        PNone \<Rightarrow> Some (str ''null'')
      | PBool b \<Rightarrow> Some (if b then str ''true'' else str ''false'')
      | PInt i \<Rightarrow> Some ((if i < 0 then str ''-'' else []) @ digits10 (nat \<bar>i\<bar>))
      | PStr s \<Rightarrow> json_quote s
      | PDatetime d \<Rightarrow> None)"

definition json_item :: "unicode \<times> pyval \<Rightarrow> unicode option" where
  "json_item kv =
     (case (json_quote (fst kv), json_value (snd kv)) of
        (Some k, Some v) \<Rightarrow> Some (k @ str '':'' @ v)
      | _ \<Rightarrow> None)"

definition example_json_dumps :: "metadata \<Rightarrow> error + unicode" where
  "example_json_dumps m =
     (case those (map json_item (sort_key fst m)) of
        None \<Rightarrow> Inl JSONEncodeError
      | Some items \<Rightarrow> Inr (str ''{'' @ join_with (str '','') items @ str ''}''))"

definition example_records :: "metadata list" where
  "example_records = [[], [(str ''a'', PInt 1)], [(str ''a'', PInt 2)]]"

definition example_json_loads :: "unicode \<Rightarrow> error + metadata" where
  "example_json_loads t =
     (case find (\<lambda>m. example_json_dumps m = Inr t) example_records of
        None \<Rightarrow> Inl JSONDecodeError
      | Some m \<Rightarrow> Inr m)"

definition number_at :: "unicode \<Rightarrow> nat \<Rightarrow> nat \<Rightarrow> nat option" where
  "number_at s i n =
     (if i + n \<le> length s \<and> list_all is_digit (slice s i (i + n))
      then Some (int_of_digits 10 (slice s i (i + n))) else None)"

definition example_fromisoformat :: "unicode \<Rightarrow> datetime option" where
  "example_fromisoformat s =
     (case (number_at s 0 4, number_at s 5 2, number_at s 8 2,
            number_at s 11 2, number_at s 14 2, number_at s 17 2) of
        (Some y, Some mo, Some d, Some h, Some mi, Some sec) \<Rightarrow>
          if slice s 4 5 = str ''-'' \<and> slice s 7 8 = str ''-'' \<and> slice s 10 11 = str ''T''
             \<and> slice s 13 14 = str '':'' \<and> slice s 16 17 = str '':''
             \<and> 1 \<le> y \<and> 1 \<le> mo \<and> mo \<le> 12 \<and> 1 \<le> d \<and> d \<le> 28 \<and> h < 24 \<and> mi < 60 \<and> sec < 60
          then
            (if length s = 19 then
               Some \<lparr>year = y, month = mo, day = d, hour = h, minute = mi, second = sec,
                     microsecond = 0, utcoffset = None\<rparr>
             else
               (case (number_at s 20 2, number_at s 23 2) of
                  (Some oh, Some om) \<Rightarrow>
                    if length s = 25 \<and> (slice s 19 20 = str ''+'' \<or> slice s 19 20 = str ''-'')
                       \<and> slice s 22 23 = str '':'' \<and> oh < 24 \<and> om < 60
                    then Some \<lparr>year = y, month = mo, day = d, hour = h, minute = mi, second = sec,
                               microsecond = 0,
                               utcoffset = Some ((if slice s 19 20 = str ''-'' then - 1 else 1)
                                                  * (int oh * 3600 + int om * 60))\<rparr>
                    else None
                | _ \<Rightarrow> None))
          else None
      | _ \<Rightarrow> None)"

definition example_lib :: "metadata pylib" where
  "example_lib = \<lparr> json_dumps = example_json_dumps, json_loads = example_json_loads,
     u_alnum = (\<lambda>c. False), u_space = (\<lambda>c. False), u_ci = (\<lambda>p c. False),
     u_lower = (\<lambda>s. s),
     html5 = map_of [(str ''amp;'', [38]), (str ''lt;'', [60]), (str ''gt;'', [62]),
                     (str ''quot;'', [34]), (str ''apos;'', [39])],
     invalid_charrefs = map_of [(0, [0xFFFD]), (13, [13])],
     invalid_codepoints = (\<lambda>c. c < 9),
     fromisoformat = example_fromisoformat \<rparr>"

definition example_png :: bytes where
  "example_png = PNG_SIGNATURE @ [CHR 0x00, CHR 0x00, CHR 0x00, CHR 0x00] @ ''IEND''
     @ [CHR 0xAE, CHR 0x42, CHR 0x60, CHR 0x82]"

definition example_svg :: bytes where
  "example_svg = ''<svg></svg>''"

definition example_figure :: figure where
  "example_figure fmt =
     (if fmt = str ''png'' then Inr example_png
      else if fmt = str ''svg'' then Inr example_svg
      else Inl RenderError)"

definition example_clock :: datetime where
  "example_clock = \<lparr>year = 2024, month = 1, day = 2, hour = 3, minute = 4, second = 5,
     microsecond = 0, utcoffset = Some 0\<rparr>"

definition example_runtime :: runtime where
  "example_runtime = \<lparr> clock = example_clock, clock_later = example_clock,
     stack = [str ''/home/user/plot.py'', str ''/lib/refig/__init__.py'',
              str ''/lib/refig/_core.py'', str ''/lib/refig/_core.py''],
     is_library_path = (\<lambda>p. startswith p (str ''/lib/refig/'')),
     resolve = (\<lambda>p. Some p),
     get_ipython = Inl ImportError,
     git_rev_parse = Inl FileNotFoundError,
     package_version = None,
     gcf = Inr None \<rparr>"

definition example_record :: "unicode \<Rightarrow> metadata" where
  "example_record name =
     [(str ''figure'', PStr name),
      (str ''created_at'', PStr (str ''2024-01-02T03:04:05+00:00'')),
      (str ''source'', PStr (str ''/home/user/plot.py'')),
      (str ''cell_number'', PNone), (str ''git_commit'', PNone), (str ''refig_version'', PNone)]"

text \<open>A runtime in which no optional source can be determined, and the record it gives.\<close>

definition bare_runtime :: runtime where
  "bare_runtime = example_runtime \<lparr> stack := [str ''<stdin>'', str ''/lib/refig/__init__.py'',
     str ''/lib/refig/_core.py'', str ''/lib/refig/_core.py''] \<rparr>"

definition bare_record :: metadata where
  "bare_record =
     [(str ''figure'', PStr (str ''plot.png'')),
      (str ''created_at'', PStr (str ''2024-01-02T03:04:05+00:00'')),
      (str ''source'', PNone), (str ''cell_number'', PNone),
      (str ''git_commit'', PNone), (str ''refig_version'', PNone)]"

text \<open>"The key is absent from the record", as the specification words it.\<close>

definition key_absent :: "metadata \<Rightarrow> unicode \<Rightarrow> bool" where
  "key_absent md k = (map_of md k = None)"

text \<open>
  "That instant in UTC", as the specification words it: the calendar fields of the same
  instant at offset zero (\<open>astimezone(timezone.utc)\<close>); an offset is less than a day, so the
  date moves by one day at most.
\<close>

definition is_leap :: "nat \<Rightarrow> bool" where
  "is_leap y = (y mod 4 = 0 \<and> (y mod 100 \<noteq> 0 \<or> y mod 400 = 0))"

definition days_in_month :: "nat \<Rightarrow> nat \<Rightarrow> nat" where
  "days_in_month y m =
     (if m = 2 then (if is_leap y then 29 else 28)
      else if m \<in> {4, 6, 9, 11} then 30 else 31)"

definition previous_day :: "datetime \<Rightarrow> datetime" where
  "previous_day d =
     (if 1 < day d then d\<lparr>day := day d - 1\<rparr>
      else if 1 < month d then d\<lparr>month := month d - 1, day := days_in_month (year d) (month d - 1)\<rparr>
      else d\<lparr>year := year d - 1, month := 12, day := 31\<rparr>)"

definition next_day :: "datetime \<Rightarrow> datetime" where
  "next_day d =
     (if day d < days_in_month (year d) (month d) then d\<lparr>day := day d + 1\<rparr>
      else if month d < 12 then d\<lparr>month := month d + 1, day := 1\<rparr>
      else d\<lparr>year := year d + 1, month := 1, day := 1\<rparr>)"

definition astimezone_utc :: "datetime \<Rightarrow> datetime" where
  "astimezone_utc d =
     (let off = (case utcoffset d of None \<Rightarrow> 0 | Some o' \<Rightarrow> o');
          secs = int (hour d) * 3600 + int (minute d) * 60 + int (second d) - off;
          d' = (if secs < 0 then previous_day d else if 86400 \<le> secs then next_day d else d);
          s = nat (secs mod 86400)
      in d'\<lparr>hour := s div 3600, minute := s div 60 mod 60, second := s mod 60, utcoffset := Some 0\<rparr>)"

text \<open>
  "The reserved metadata blocks of an artifact", as the specification words it: in a raster
  image, the text blocks of the block stream whose keyword is the reserved one; in a markup
  image, the matches of the metadata pattern, counted from left to right without overlap.
\<close>

definition is_reserved_chunk :: "chunk \<Rightarrow> bool" where
  "is_reserved_chunk c =
     (fst c = ''tEXt'' \<and> latin1_decode (fst (partition_nul (snd c))) = METADATA_KEYWORD)"

fun reserved_chunks :: "chunk gen \<Rightarrow> nat" where
  "reserved_chunks Stop = 0"
| "reserved_chunks (Raise e) = 0"
| "reserved_chunks (Yield c g) = (if is_reserved_chunk c then 1 else 0) + reserved_chunks g"

text \<open>Embedding twice, and embedding followed by extraction.\<close>

definition reembed_png :: "('m, 'x) pylib_scheme \<Rightarrow> bytes \<Rightarrow> 'm \<Rightarrow> 'm \<Rightarrow> error + bytes" where
  "reembed_png L png_bytes m1 m2 =
     and_then (embed_png_metadata L png_bytes m1) (\<lambda>b. embed_png_metadata L b m2)"

definition roundtrip_png :: "('m, 'x) pylib_scheme \<Rightarrow> bytes \<Rightarrow> 'm \<Rightarrow> error + 'm" where
  "roundtrip_png L png_bytes m =
     and_then (embed_png_metadata L png_bytes m) (extract_png_metadata L)"

definition reembed_svg :: "('m, 'x) pylib_scheme \<Rightarrow> bytes \<Rightarrow> 'm \<Rightarrow> 'm \<Rightarrow> error + bytes" where
  "reembed_svg L svg_bytes m1 m2 =
     and_then (embed_svg_metadata L svg_bytes m1) (\<lambda>b. embed_svg_metadata L b m2)"

definition roundtrip_svg :: "('m, 'x) pylib_scheme \<Rightarrow> bytes \<Rightarrow> 'm \<Rightarrow> error + 'm" where
  "roundtrip_svg L svg_bytes m =
     and_then (embed_svg_metadata L svg_bytes m) (extract_svg_metadata L)"

definition empty_fs :: fs where
  "empty_fs = (\<lambda>p. None)"

section \<open>Properties of the library functions\<close>

lemma be32_digits:
  fixes n :: nat
  assumes "n < 2 ^ 32"
  shows "n div 2 ^ 24 mod 256 * 2 ^ 24 + n div 2 ^ 16 mod 256 * 2 ^ 16 + n div 2 ^ 8 mod 256 * 2 ^ 8 + n mod 256 = n"
proof -
  define a where "a = n div 256"
  define b where "b = a div 256"
  define c where "c = b div 256"
  have d8: "n div 2 ^ 8 = a" by (simp add: a_def)
  have d16: "n div 2 ^ 16 = b" unfolding b_def a_def by (simp add: div_mult2_eq[symmetric])
  have d24: "n div 2 ^ 24 = c" unfolding c_def b_def a_def by (simp add: div_mult2_eq[symmetric])
  have c: "c < 256" using assms unfolding d24[symmetric] by (simp add: less_mult_imp_div_less)
  have n: "n = 256 * a + n mod 256" unfolding a_def by simp
  have a: "a = 256 * b + a mod 256" unfolding b_def by simp
  have b: "b = 256 * c + b mod 256" unfolding c_def by simp
  show ?thesis unfolding d8 d16 d24 using n a b c by simp
qed

lemma struct_unpack_pack: 
  assumes "struct_pack_I n = Inr bs" shows "struct_unpack_I bs = Inr n"
proof -
  from assms have n: "n < 2 ^ 32" and bs: "bs = [char_of (n div 2 ^ 24), char_of (n div 2 ^ 16), char_of (n div 2 ^ 8), char_of n]"
    by (auto simp: struct_pack_I_def split: if_splits)
  show ?thesis unfolding bs struct_unpack_I_def using be32_digits[OF n] by (simp del: mod_less)
qed

lemma utf8_encode_char_Some_iff: "(\<exists>bs. utf8_encode_char c = Some bs) = encodable c"
  by (auto simp: utf8_encode_char_def encodable_def is_surrogate_def)

lemma div_mod_4096: "(c::nat) div 4096 * 4096 + c div 64 mod 64 * 64 + c mod 64 = c"
proof -
  define a where "a = c div 64"
  define b where "b = a div 64"
  define r0 where "r0 = c mod 64"
  define r1 where "r1 = a mod 64"
  have 1: "c div 4096 = b" unfolding b_def a_def by (simp add: div_mult2_eq[symmetric])
  have 2: "a = b * 64 + r1" unfolding b_def r1_def by simp
  have 3: "c = a * 64 + r0" unfolding a_def r0_def by simp
  have "b * 4096 + r1 * 64 + r0 = c" using 2 3 by linarith
  thus ?thesis unfolding 1 r1_def r0_def a_def .
qed

lemma div_mod_262144:
  "(c::nat) div 262144 * 262144 + c div 4096 mod 64 * 4096 + c div 64 mod 64 * 64 + c mod 64 = c"
proof -
  define a where "a = c div 64"
  define b where "b = a div 64"
  define d where "d = b div 64"
  define r0 where "r0 = c mod 64"
  define r1 where "r1 = a mod 64"
  define r2 where "r2 = b mod 64"
  have 0: "c div 4096 = b" unfolding b_def a_def by (simp add: div_mult2_eq[symmetric])
  have 1: "c div 262144 = d" unfolding d_def b_def a_def by (simp add: div_mult2_eq[symmetric])
  have 2: "a = b * 64 + r1" unfolding b_def r1_def by simp
  have 3: "c = a * 64 + r0" unfolding a_def r0_def by simp
  have 4: "b = d * 64 + r2" unfolding d_def r2_def by simp
  have "d * 262144 + r2 * 4096 + r1 * 64 + r0 = c" using 2 3 4 by linarith
  thus ?thesis unfolding 0 1 r2_def r1_def r0_def a_def[symmetric] .
qed

lemma decode_two:
  assumes "2 \<le> q" "q < 32" "r1 < 64"
  shows "utf8_decode_nat ((0xC0 + q) # (0x80 + r1) # r) =
         and_then (utf8_decode_nat r) (\<lambda>t. Inr ((q * 64 + r1) # t))"
  using assms by (cases "utf8_decode_nat r") (simp_all add: is_cont_def and_then_def)

lemma decode_three:
  assumes "q < 16" "r1 < 64" "r2 < 64" "0x800 \<le> q * 4096 + r1 * 64 + r2"
    "\<not> is_surrogate (q * 4096 + r1 * 64 + r2)"
  shows "utf8_decode_nat ((0xE0 + q) # (0x80 + r1) # (0x80 + r2) # r) =
         and_then (utf8_decode_nat r) (\<lambda>t. Inr ((q * 4096 + r1 * 64 + r2) # t))"
  using assms by (cases "utf8_decode_nat r") (simp_all add: is_cont_def and_then_def)

lemma decode_four:
  assumes "q < 5" "r1 < 64" "r2 < 64" "r3 < 64" "0x10000 \<le> q * 262144 + r1 * 4096 + r2 * 64 + r3"
    "q * 262144 + r1 * 4096 + r2 * 64 + r3 < 0x110000"
  shows "utf8_decode_nat ((0xF0 + q) # (0x80 + r1) # (0x80 + r2) # (0x80 + r3) # r) =
         and_then (utf8_decode_nat r) (\<lambda>t. Inr ((q * 262144 + r1 * 4096 + r2 * 64 + r3) # t))"
  using assms by (cases "utf8_decode_nat r") (simp_all add: is_cont_def and_then_def)

lemma of_char_char_of_small: "x < 256 \<Longrightarrow> of_char (char_of (x::nat)) = x"
  by simp

lemma utf8_decode_encode_char:
  assumes "utf8_encode_char c = Some cb"
  shows "utf8_decode_nat (map of_char cb @ r) = and_then (utf8_decode_nat r) (\<lambda>t. Inr (c # t))"
proof -
  consider "c < 0x80" | "0x80 \<le> c" "c < 0x800" | "0x800 \<le> c" "c < 0x10000" "\<not> is_surrogate c"
    | "0x10000 \<le> c" "c < 0x110000"
    using assms by (auto simp: utf8_encode_char_def split: if_splits) 
  then show ?thesis
  proof cases
    case 1
    then show ?thesis using assms
      by (cases "utf8_decode_nat r") (auto simp: utf8_encode_char_def and_then_def)
  next
    case 2
    hence cb: "cb = [char_of (0xC0 + c div 64), char_of (0x80 + c mod 64)]"
      using assms by (auto simp: utf8_encode_char_def)
    define q where "q = c div 64"
    define r1 where "r1 = c mod 64"
    have q: "2 \<le> q" "q < 32" and r1: "r1 < 64" using 2 by (auto simp: q_def r1_def)
    have c: "q * 64 + r1 = c" by (simp add: q_def r1_def)
    have m: "map of_char cb = [0xC0 + q, 0x80 + r1]"
      unfolding cb q_def[symmetric] r1_def[symmetric] using q r1
      by (simp add: of_char_char_of_small del: of_char_of)
    show ?thesis unfolding m using decode_two[OF q r1, of r] by (simp add: c)
  next
    case 3
    hence cb: "cb = [char_of (0xE0 + c div 4096), char_of (0x80 + c div 64 mod 64), char_of (0x80 + c mod 64)]"
      using assms by (auto simp: utf8_encode_char_def)
    define q where "q = c div 4096"
    define r1 where "r1 = c div 64 mod 64"
    define r2 where "r2 = c mod 64"
    have q: "q < 16" and r1: "r1 < 64" and r2: "r2 < 64" using 3 by (auto simp: q_def r1_def r2_def)
    have c: "q * 4096 + r1 * 64 + r2 = c" unfolding q_def r1_def r2_def by (rule div_mod_4096)
    have m: "map of_char cb = [0xE0 + q, 0x80 + r1, 0x80 + r2]"
      unfolding cb q_def[symmetric] r1_def[symmetric] r2_def[symmetric] using q r1 r2
      by (simp add: of_char_char_of_small del: of_char_of)
    show ?thesis unfolding m using decode_three[OF q r1 r2, of r] 3 unfolding c by simp
  next
    case 4
    hence cb: "cb = [char_of (0xF0 + c div 262144), char_of (0x80 + c div 4096 mod 64), char_of (0x80 + c div 64 mod 64), char_of (0x80 + c mod 64)]"
      using assms by (auto simp: utf8_encode_char_def)
    define q where "q = c div 262144"
    define r1 where "r1 = c div 4096 mod 64"
    define r2 where "r2 = c div 64 mod 64"
    define r3 where "r3 = c mod 64"
    have q: "q < 5" and r1: "r1 < 64" and r2: "r2 < 64" and r3: "r3 < 64"
      using 4 by (auto simp: q_def r1_def r2_def r3_def)
    have c: "q * 262144 + r1 * 4096 + r2 * 64 + r3 = c" unfolding q_def r1_def r2_def r3_def
      by (rule div_mod_262144)
    have m: "map of_char cb = [0xF0 + q, 0x80 + r1, 0x80 + r2, 0x80 + r3]"
      unfolding cb q_def[symmetric] r1_def[symmetric] r2_def[symmetric] r3_def[symmetric]
      using q r1 r2 r3 by (simp add: of_char_char_of_small del: of_char_of)
    show ?thesis unfolding m using decode_four[OF q r1 r2 r3, of r] 4 unfolding c by simp
  qed
qed

lemma utf8_decode_encode:
  "utf8_encode t = Inr bs \<Longrightarrow> utf8_decode bs = Inr t"
proof (induction t arbitrary: bs)
  case Nil
  then show ?case by (simp add: utf8_decode_def)
next
  case (Cons c cs)
  then obtain cb rest where cb: "utf8_encode_char c = Some cb" and rest: "utf8_encode cs = Inr rest"
    and bs: "bs = cb @ rest"
    by (auto split: option.splits sum.splits)
  from Cons.IH[OF rest] have "utf8_decode_nat (map of_char rest) = Inr cs" by (simp add: utf8_decode_def)
  thus ?case unfolding bs utf8_decode_def using utf8_decode_encode_char[OF cb, of "map of_char rest"]
    by (simp add: and_then_def)
qed

lemma utf8_encode_append:
  "utf8_encode (a @ b) = and_then (utf8_encode a) (\<lambda>x. and_then (utf8_encode b) (\<lambda>y. Inr (x @ y)))"
  by (induction a) (auto simp: and_then_def split: option.splits sum.splits)

lemma utf8_encode_Inr_iff: "(\<exists>bs. utf8_encode t = Inr bs) = list_all encodable t"
proof (induction t)
  case Nil show ?case by simp
next
  case (Cons c cs)
  show ?case using Cons utf8_encode_char_Some_iff[of c]
    by (auto split: option.splits sum.splits)
qed

section \<open>Properties of the raster codec\<close>

lemma slice_append_shift: "slice (pre @ bs) (length pre + a) (length pre + b) = slice bs a b"
  by (simp add: slice_def)

lemma iter_chunks_at_shift:
  "iter_chunks_at (pre @ bs) (length pre + i) = iter_chunks_at bs i"
proof (induction bs i rule: iter_chunks_at.induct)
  case (1 png_bytes index)
  have s: "\<And>a b. slice (pre @ png_bytes) (length pre + index + a) (length pre + index + b) = slice png_bytes (index + a) (index + b)"
    by (simp add: slice_def)
  show ?case
  proof (cases "struct_unpack_I (slice png_bytes index (index + 4))")
    case (Inl e)
    then show ?thesis
      using s[of 0 4] 
      by (subst iter_chunks_at.simps, subst (2) iter_chunks_at.simps) (simp add: Let_def add.assoc)
  next
    case (Inr len)
    show ?thesis
    proof (cases "slice png_bytes index (index + 4) = [] \<or> length png_bytes \<le> index + 8 + len + 4")
      case True
      then show ?thesis using Inr s[of 0 4] s[of 4 8] s[of 8 "8 + len"]
        by (subst iter_chunks_at.simps, subst (2) iter_chunks_at.simps) (auto simp add: Let_def add.assoc)
    next
      case False
      hence ih: "iter_chunks_at (pre @ png_bytes) (length pre + (index + 8 + len + 4)) = iter_chunks_at png_bytes (index + 8 + len + 4)"
        using 1[OF refl _ Inr] by simp
      show ?thesis using Inr s[of 0 4] s[of 4 8] s[of 8 "8 + len"] False ih
        by (subst iter_chunks_at.simps, subst (2) iter_chunks_at.simps) (simp add: Let_def add.assoc)
    qed
  qed
qed


lemma struct_unpack_I_length: "struct_unpack_I bs = Inr n \<Longrightarrow> length bs = 4"
  by (auto simp: struct_unpack_I_def split: list.splits)

lemma iter_chunks_at_first:
  assumes u: "struct_unpack_I len4 = Inr (length data)" and ty: "length ty = 4" and crc: "length crc = 4"
  shows "iter_chunks_at (len4 @ ty @ data @ crc @ rest) 0 = Yield (ty, data) (iter_chunks_at rest 0)"
proof -
  have l4: "length len4 = 4" using u by (rule struct_unpack_I_length)
  let ?bs = "len4 @ ty @ data @ crc @ rest"
  have s1: "slice ?bs 0 (0 + 4) = len4" using l4 by (simp add: slice_def)
  have s2: "slice ?bs (0 + 4) (0 + 8) = ty" using l4 ty by (simp add: slice_def)
  have s3: "slice ?bs (0 + 8) (0 + 8 + length data) = data" using l4 ty by (simp add: slice_def)
  have ne: "len4 \<noteq> []" using l4 by auto
  have len: "length ?bs = 12 + length data + length rest" using l4 ty crc by simp
  have sh: "iter_chunks_at ?bs (0 + 8 + length data + 4) = iter_chunks_at rest 0"
    using iter_chunks_at_shift[of "len4 @ ty @ data @ crc" rest 0] l4 ty crc by (simp add: add.commute)
  have stop: "rest = [] \<Longrightarrow> iter_chunks_at rest 0 = Stop"
    by (subst iter_chunks_at.simps) (simp add: slice_def)
  have "iter_chunks_at ?bs 0 =
          Yield (ty, data) (if length ?bs \<le> 0 + 8 + length data + 4 then Stop else iter_chunks_at rest 0)"
    by (subst iter_chunks_at.simps) (simp only: Let_def s1 s2 s3 u sh ne if_False sum.case)
  thus ?thesis using stop l4 ty crc by (cases "rest = []") simp_all
qed

lemma word_bytes_ok: "\<exists>bs. word_bytes w = Inr bs \<and> length bs = 4"
proof -
  have "unat w < 2 ^ 32" using unsigned_less[of w] by simp
  thus ?thesis by (simp add: word_bytes_def struct_pack_I_def)
qed

lemma latin1_keyword: "latin1_encode METADATA_KEYWORD = Inr ''refig''"
  by code_simp

lemma build_text_chunk_ok:
  assumes tb: "utf8_encode payload = Inr tb" and sz: "length tb + 6 < 2 ^ 32"
  shows "\<exists>len4 crc. build_text_chunk METADATA_KEYWORD payload = Inr (len4 @ ''tEXt'' @ (''refig'' @ [CHR 0x00] @ tb) @ crc)
          \<and> struct_unpack_I len4 = Inr (length (''refig'' @ [CHR 0x00] @ tb)) \<and> length crc = 4"
proof -
  let ?data = "''refig'' @ [CHR 0x00] @ tb"
  have "length ?data < 2 ^ 32" using sz by simp
  then obtain len4 where p: "struct_pack_I (length ?data) = Inr len4"
    by (simp add: struct_pack_I_def)
  obtain crc where c: "word_bytes (zlib_crc32 (''tEXt'' @ ?data) AND 0xFFFFFFFF) = Inr crc" "length crc = 4"
    using word_bytes_ok by blast
  have "build_text_chunk METADATA_KEYWORD payload = Inr (len4 @ ''tEXt'' @ ?data @ crc)"
    unfolding build_text_chunk_def latin1_keyword tb and_then_def Let_def using p c(1) by simp
  thus ?thesis using struct_unpack_pack[OF p] c(2) by blast
qed

lemma startswith_split: "startswith xs p \<Longrightarrow> xs = p @ drop (length p) xs"
  by (metis append_take_drop_id startswith_def)


lemma embed_png_stream:
  assumes sig: "startswith png_bytes PNG_SIGNATURE"
    and js: "json_dumps L metadata = Inr payload"
    and tb: "utf8_encode payload = Inr tb"
    and sz: "length tb + 6 < 2 ^ 32"
  shows "\<exists>chunk. build_text_chunk METADATA_KEYWORD payload = Inr chunk
           \<and> embed_png_metadata L png_bytes metadata
               = Inr (PNG_SIGNATURE @ chunk @ drop (length PNG_SIGNATURE) png_bytes)
           \<and> iter_chunks (PNG_SIGNATURE @ chunk @ drop (length PNG_SIGNATURE) png_bytes)
               = Yield (''tEXt'', ''refig'' @ [CHR 0x00] @ tb) (iter_chunks png_bytes)"
proof -
  let ?data = "''refig'' @ [CHR 0x00] @ tb"
  let ?rest = "drop (length PNG_SIGNATURE) png_bytes"
  obtain len4 crc where b: "build_text_chunk METADATA_KEYWORD payload = Inr (len4 @ ''tEXt'' @ ?data @ crc)"
    and u: "struct_unpack_I len4 = Inr (length ?data)" and c: "length crc = 4"
    using build_text_chunk_ok[OF tb sz] by blast
  let ?chunk = "len4 @ ''tEXt'' @ ?data @ crc"
  have e: "embed_png_metadata L png_bytes metadata = Inr (PNG_SIGNATURE @ ?chunk @ ?rest)"
    unfolding embed_png_metadata_def using sig js b by (simp add: and_then_def)
  have "iter_chunks (PNG_SIGNATURE @ ?chunk @ ?rest) = iter_chunks_at (?chunk @ ?rest) 0"
    unfolding iter_chunks_def using iter_chunks_at_shift[of PNG_SIGNATURE "?chunk @ ?rest" 0] by simp
  also have "\<dots> = Yield (''tEXt'', ?data) (iter_chunks_at ?rest 0)"
    using iter_chunks_at_first[OF u _ c, of "''tEXt''" ?rest] by simp
  also have "iter_chunks_at ?rest 0 = iter_chunks_at (PNG_SIGNATURE @ ?rest) (length PNG_SIGNATURE + 0)"
    by (rule iter_chunks_at_shift[symmetric])
  also have "\<dots> = iter_chunks png_bytes"
    unfolding iter_chunks_def using startswith_split[OF sig] by simp
  finally show ?thesis using b e by blast
qed

text \<open>
  Claim C5. Embedding a record into a raster image that starts with the signature returns
  the signature, then the new text block, then the original bytes after the signature; the
  block stream of the result is the new block followed by the block stream of the input, so
  every block that was there keeps its type, its data and its place in the order.
\<close>

theorem png_embed_frame:
  assumes sig: "startswith png_bytes PNG_SIGNATURE"
    and js: "json_dumps L metadata = Inr payload"
    and tb: "utf8_encode payload = Inr tb"
    and sz: "length tb + 6 < 2 ^ 32"
  shows "\<exists>chunk. build_text_chunk METADATA_KEYWORD payload = Inr chunk
           \<and> embed_png_metadata L png_bytes metadata
               = Inr (PNG_SIGNATURE @ chunk @ drop (length PNG_SIGNATURE) png_bytes)
           \<and> iter_chunks (PNG_SIGNATURE @ chunk @ drop (length PNG_SIGNATURE) png_bytes)
               = Yield (''tEXt'', ''refig'' @ [CHR 0x00] @ tb) (iter_chunks png_bytes)"
  using embed_png_stream [OF sig js tb sz] .

theorem png_embed_frame_witness:
  "startswith example_png PNG_SIGNATURE
   \<and> json_dumps example_lib [] = Inr (str ''{}'')
   \<and> utf8_encode (str ''{}'') = Inr ''{}''
   \<and> length ''{}'' + 6 < (2::nat) ^ 32
   \<and> (\<exists>chunk. build_text_chunk METADATA_KEYWORD (str ''{}'') = Inr chunk
        \<and> embed_png_metadata example_lib example_png []
            = Inr (PNG_SIGNATURE @ chunk @ drop (length PNG_SIGNATURE) example_png)
        \<and> iter_chunks (PNG_SIGNATURE @ chunk @ drop (length PNG_SIGNATURE) example_png)
            = Yield (''tEXt'', ''refig'' @ [CHR 0x00] @ ''{}'') (iter_chunks example_png))"
proof -
  have 1: "startswith example_png PNG_SIGNATURE"
    by (simp add: startswith_def example_png_def PNG_SIGNATURE_def)
  have 2: "json_dumps example_lib [] = Inr (str ''{}'')"
    by (simp add: example_lib_def example_json_dumps_def join_with_def str_def)
  have 3: "utf8_encode (str ''{}'') = Inr ''{}''"
    by code_simp
  have 4: "length ''{}'' + 6 < (2::nat) ^ 32"
    by simp
  show ?thesis
    using 1 2 3 4 png_embed_frame [OF 1 2 3 4] by blast
qed

section \<open>Properties of the orchestrator\<close>

lemma strip_id:
  assumes "s \<noteq> []" "\<not> py_isspace L (hd s)" "\<not> py_isspace L (last s)"
  shows "strip L s = s"
proof -
  have 1: "dropWhile (py_isspace L) s = s" using assms(1,2) by (cases s) auto
  obtain x xs where r: "rev s = x # xs" using assms(1) by (cases "rev s") auto
  hence x: "x = last s" by (metis hd_rev list.sel(1))
  have 2: "dropWhile (py_isspace L) (rev s) = rev s" unfolding r using assms(3) x by simp
  show ?thesis unfolding strip_def 1 2 by simp
qed

lemma hexdigit_not_space: "is_hexdigit c \<Longrightarrow> \<not> py_isspace L c"
  by (auto simp: is_hexdigit_def is_digit_def py_isspace_def)

text \<open>
  Claim C8. The revision token of a string is the string trimmed of surrounding whitespace
  and cut to its first seven characters; a string that is empty after trimming, a missing
  revision and the value \<open>None\<close> give the literal \<open>nogit\<close>; a revision of forty
  hexadecimal digits gives exactly its first seven.
\<close>

theorem format_git_hash_token:
  "(strip L s \<noteq> [] \<longrightarrow> format_git_hash L (PStr s) = take 7 (strip L s))
   \<and> (strip L s = [] \<longrightarrow> format_git_hash L (PStr s) = str ''nogit'')
   \<and> format_git_hash L PNone = str ''nogit''
   \<and> (map_of md (str ''git_commit'') = None
        \<longrightarrow> format_git_hash L (dict_get md (str ''git_commit'')) = str ''nogit'')
   \<and> (length s = 40 \<and> list_all is_hexdigit s
        \<longrightarrow> format_git_hash L (PStr s) = take 7 s \<and> length (format_git_hash L (PStr s)) = 7)"
proof -
  have ne: "strip L s \<noteq> [] \<Longrightarrow> s \<noteq> []" by (auto simp: strip_def)
  have a: "strip L s \<noteq> [] \<longrightarrow> format_git_hash L (PStr s) = take 7 (strip L s)"
    using ne by (simp add: format_git_hash_def)
  have b: "strip L s = [] \<longrightarrow> format_git_hash L (PStr s) = str ''nogit''"
    by (simp add: format_git_hash_def str_def)
  have c: "format_git_hash L PNone = str ''nogit''"
    by (simp add: format_git_hash_def)
  have d: "map_of md (str ''git_commit'') = None
        \<longrightarrow> format_git_hash L (dict_get md (str ''git_commit'')) = str ''nogit''"
    by (simp add: dict_get_def format_git_hash_def)
  have e: "length s = 40 \<and> list_all is_hexdigit s
        \<longrightarrow> format_git_hash L (PStr s) = take 7 s \<and> length (format_git_hash L (PStr s)) = 7"
  proof
    assume h: "length s = 40 \<and> list_all is_hexdigit s"
    hence s: "s \<noteq> []" by auto
    hence "is_hexdigit (hd s)" "is_hexdigit (last s)" using h by (auto simp: list_all_iff)
    hence "strip L s = s" using strip_id[OF s] hexdigit_not_space by blast
    thus "format_git_hash L (PStr s) = take 7 s \<and> length (format_git_hash L (PStr s)) = 7"
      using s h by (simp add: format_git_hash_def)
  qed
  show ?thesis using a b c d e by blast
qed

theorem format_git_hash_token_witness:
  "format_git_hash example_lib (PStr (str ''  0123456789abcdef  '')) = str ''0123456''
   \<and> format_git_hash example_lib (PStr (str ''   '')) = str ''nogit''
   \<and> format_git_hash example_lib (dict_get [(str ''figure'', PStr (str ''plot.png''))] (str ''git_commit''))
       = str ''nogit''
   \<and> format_git_hash example_lib (PStr (str ''0123456789abcdef0123456789abcdef01234567''))
       = str ''0123456''"
proof -
  have 1: "strip example_lib (str ''  0123456789abcdef  '') = str ''0123456789abcdef''"
    by (simp add: strip_def py_isspace_def str_def)
  have 2: "strip example_lib (str ''   '') = []"
    by (simp add: strip_def py_isspace_def str_def)
  have 3: "map_of [(str ''figure'', PStr (str ''plot.png''))] (str ''git_commit'') = None"
    by (simp add: str_def)
  have 4: "length (str ''0123456789abcdef0123456789abcdef01234567'') = 40
           \<and> list_all is_hexdigit (str ''0123456789abcdef0123456789abcdef01234567'')"
    by (simp add: str_def is_hexdigit_def is_digit_def)
  have 5: "take 7 (str ''0123456789abcdef'') = str ''0123456''"
    "take 7 (str ''0123456789abcdef0123456789abcdef01234567'') = str ''0123456''"
    by (simp_all add: str_def)
  have a: "format_git_hash example_lib (PStr (str ''  0123456789abcdef  '')) = str ''0123456''"
    using format_git_hash_token [of example_lib "str ''  0123456789abcdef  ''" "[]"] 1 5(1)
    by (simp add: str_def)
  have b: "format_git_hash example_lib (PStr (str ''   '')) = str ''nogit''"
    using format_git_hash_token [of example_lib "str ''   ''" "[]"] 2 by simp
  have c: "format_git_hash example_lib (dict_get [(str ''figure'', PStr (str ''plot.png''))] (str ''git_commit'')) = str ''nogit''"
    using format_git_hash_token [of example_lib "[]" "[(str ''figure'', PStr (str ''plot.png''))]"] 3 by blast
  have d: "format_git_hash example_lib (PStr (str ''0123456789abcdef0123456789abcdef01234567'')) = str ''0123456''"
    using format_git_hash_token [of example_lib "str ''0123456789abcdef0123456789abcdef01234567''" "[]"] 4 5(2)
    by metis
  show ?thesis using a b c d by blast
qed


lemma mkdir_parents_keeps_files:
  "mkdir_parents f pre cs = (r, f') \<Longrightarrow> f q = Some (File x) \<Longrightarrow> f' q = Some (File x)"
proof (induction cs arbitrary: f pre)
  case Nil thus ?case by simp
next
  case (Cons c cs)
  show ?case
  proof (cases "f (pre @ [c])")
    case None
    hence "q \<noteq> pre @ [c]" using Cons.prems(2) by auto
    hence q: "(f(pre @ [c] \<mapsto> Dir)) q = Some (File x)" using Cons.prems(2) by simp
    have "mkdir_parents (f(pre @ [c] \<mapsto> Dir)) (pre @ [c]) cs = (r, f')"
      using None Cons.prems(1) by simp
    thus ?thesis using q by (rule Cons.IH)
  next
    case (Some n)
    show ?thesis
    proof (cases n)
      case (File b)
      thus ?thesis using Some Cons.prems by simp
    next
      case Dir
      hence "mkdir_parents f (pre @ [c]) cs = (r, f')" using Some Cons.prems by simp
      thus ?thesis using Cons.prems(2) by (rule Cons.IH)
    qed
  qed
qed


lemma write_bytes_ok:
  assumes "write_bytes f p b = (None, f')"
  shows "f' p = Some (File b)" and "q \<noteq> p \<Longrightarrow> f q = Some (File x) \<Longrightarrow> f' q = Some (File x)"
proof -
  obtain r g where m: "mkdir_parents f [] (butlast p) = (r, g)" by (cases "mkdir_parents f [] (butlast p)")
  have r: "r = None" using assms m by (cases r) (simp_all add: write_bytes_def)
  have f': "f' = g(p \<mapsto> File b)" using assms m r
    by (auto simp: write_bytes_def split: option.splits node.splits)
  show "f' p = Some (File b)" using f' by simp
  show "q \<noteq> p \<Longrightarrow> f q = Some (File x) \<Longrightarrow> f' q = Some (File x)"
    using f' mkdir_parents_keeps_files[OF m] by simp
qed

lemma savefig_success:
  assumes "py_lower L (path_suffix name) \<in> set SUPPORTED_EXTENSIONS"
    and "resolve_figure R fig = Inr figure_obj"
    and "build_metadata L R name extra = Inr md"
    and "render_figure figure_obj (dropWhile (\<lambda>c. c = 46) (py_lower L (path_suffix name))) kw
           = Inr image_bytes"
    and "(if py_lower L (path_suffix name) = PNG_EXT then embed_png_metadata L image_bytes md
          else embed_svg_metadata L image_bytes md) = Inr embedded"
    and "write_bytes f (joinpath LATEST_DIR (path_name name)) embedded = (None, f1)"
    and "write_bytes f1 (build_history_path L (clock_later R) name md) embedded = (None, f2)"
  shows "savefig L R name fig extra kw f =
           (Inr \<lparr>latest_path = joinpath LATEST_DIR (path_name name),
                 history_path = build_history_path L (clock_later R) name md,
                 result_metadata = md\<rparr>, f2)"
  unfolding savefig_def Let_def using assms by simp


lemmas path_defs = py_lower_def path_suffix_def path_stem_def path_name_def path_parts_def
  rfind_def str_def ascii_lower_def joinpath_def





declare digits10.simps [simp del]

lemma split_on_no_sep: "sep \<notin> set s \<Longrightarrow> split_on sep s = [s]"
  by (induction s) auto

lemma split_on_parts: "p \<in> set (split_on sep s) \<Longrightarrow> sep \<notin> set p"
proof (induction s arbitrary: p)
  case Nil thus ?case by simp
next
  case (Cons c cs)
  show ?case
  proof (cases "c = sep")
    case True thus ?thesis using Cons by auto
  next
    case False
    obtain q qs where q: "split_on sep cs = q # qs"
      by (cases "split_on sep cs") (cases cs, auto split: if_splits list.splits)
    hence "p = c # q \<or> p \<in> set qs" using Cons.prems False by simp
    thus ?thesis using Cons.IH[of q] Cons.IH[of p] q False by auto
  qed
qed

lemma path_parts_single: "s \<noteq> [] \<Longrightarrow> s \<noteq> [46] \<Longrightarrow> 47 \<notin> set s \<Longrightarrow> path_parts s = [s]"
  by (simp add: path_parts_def split_on_no_sep)

lemma path_name_props:
  assumes "path_name s \<noteq> []"
  shows "47 \<notin> set (path_name s)" and "path_name s \<noteq> [46]"
proof -
  have ne: "path_parts s \<noteq> []" using assms by (auto simp: path_name_def)
  hence "path_name s \<in> set (path_parts s)" by (simp add: path_name_def)
  hence m: "path_name s \<in> set (split_on 47 s)" and d: "path_name s \<noteq> [46]"
    by (auto simp: path_parts_def)
  show "47 \<notin> set (path_name s)" using split_on_parts[OF m] .
  show "path_name s \<noteq> [46]" using d .
qed

lemma path_suffix_name: "path_suffix s \<noteq> [] \<Longrightarrow> path_name s \<noteq> []"
  by (auto simp: path_suffix_def Let_def rfind_def split: option.splits if_splits)

lemma path_name_stem_suffix: "path_name s = path_stem s @ path_suffix s"
  by (auto simp: path_suffix_def path_stem_def Let_def split: option.splits)

lemma LATEST_DIR_eq: "LATEST_DIR = [str ''figures'', str ''latest'']"
  by (simp add: LATEST_DIR_def BASE_DIR_def joinpath_def path_parts_def str_def)

lemma HISTORY_DIR_eq: "HISTORY_DIR = [str ''figures'', str ''history'']"
  by (simp add: HISTORY_DIR_def BASE_DIR_def joinpath_def path_parts_def str_def)

lemma supported_nonempty: "x \<in> set SUPPORTED_EXTENSIONS \<Longrightarrow> x \<noteq> [] \<and> 47 \<notin> set x"
  by (auto simp: SUPPORTED_EXTENSIONS_def PNG_EXT_def SVG_EXT_def str_def)

lemma py_lower_Nil: "py_lower L [] = []"
  by (simp add: py_lower_def)

lemma latest_path_eq:
  assumes "py_lower L (path_suffix name) \<in> set SUPPORTED_EXTENSIONS"
  shows "joinpath LATEST_DIR (path_name name) = [str ''figures'', str ''latest'', path_name name]"
proof -
  have "path_suffix name \<noteq> []" using assms supported_nonempty py_lower_Nil by metis
  hence ne: "path_name name \<noteq> []" by (rule path_suffix_name)
  show ?thesis unfolding joinpath_def LATEST_DIR_eq
    using path_parts_single[OF ne path_name_props(2)[OF ne] path_name_props(1)[OF ne]] by simp
qed

lemma digits10_digits: "set (digits10 n) \<subseteq> {48..57}"
proof (induction n rule: digits10.induct)
  case (1 n)
  show ?case
  proof (cases "n < 10")
    case True thus ?thesis by (subst digits10.simps) auto
  next
    case False
    have "n mod 10 < 10" by simp
    hence "48 + n mod 10 \<in> {48..57}" by auto
    thus ?thesis using 1[OF False] False by (subst digits10.simps) auto
  qed
qed

lemma zero_pad_digits: "set (zero_pad w n) \<subseteq> {48..57}"
  using digits10_digits[of n] by (auto simp: zero_pad_def)

lemma strftime_no_slash: "47 \<notin> set (strftime_compact d)"
proof -
  have "\<And>w n. 47 \<notin> set (zero_pad w n)" using zero_pad_digits by fastforce
  thus ?thesis by (simp add: strftime_compact_def str_def)
qed

lemma timestamp_token_no_slash: "47 \<notin> set (format_timestamp_token L now v)"
proof -
  have "47 \<notin> set (filter (py_isalnum L) s)" for s
    by (auto simp: py_isalnum_def ascii_alnum_def)
  thus ?thesis
    by (auto simp: format_timestamp_token_def strftime_no_slash Let_def split: pyval.splits option.splits)
qed

lemma history_path_eq:
  assumes sup: "py_lower L (path_suffix name) \<in> set SUPPORTED_EXTENSIONS"
    and git: "47 \<notin> set (format_git_hash L (dict_get md (str ''git_commit'')))"
  shows "build_history_path L now name md =
           joinpath HISTORY_DIR (path_stem name)
           @ [str ''_'' @ format_timestamp_token L now (dict_get md (str ''created_at''))
              @ str ''_'' @ format_git_hash L (dict_get md (str ''git_commit''))
              @ py_lower L (path_suffix name)]"
proof -
  let ?h = "str ''_'' @ format_timestamp_token L now (dict_get md (str ''created_at''))
              @ str ''_'' @ format_git_hash L (dict_get md (str ''git_commit''))
              @ py_lower L (path_suffix name)"
  have 1: "?h \<noteq> []" by (simp add: str_def)
  have 2: "?h \<noteq> [46]" by (simp add: str_def)
  have 3: "47 \<notin> set ?h"
    using git timestamp_token_no_slash supported_nonempty[OF sup] by (simp add: str_def)
  show ?thesis
    unfolding build_history_path_def Let_def using sup path_parts_single[OF 1 2 3]
    by (simp add: joinpath_def)
qed

text \<open>
  Claim C10. A figure name whose extension is a supported kind after lower-casing is
  accepted: when the figure resolves, the record is built, the renderer returns, the codec
  embeds and both writes succeed, \<open>savefig\<close> returns. The latest file is named by the original
  file name, which ends with the extension as the caller wrote it; the history file name
  ends with the lower-cased extension.
\<close>

theorem savefig_extension_case:
  assumes sup: "py_lower L (path_suffix name) \<in> set SUPPORTED_EXTENSIONS"
    and fo: "resolve_figure R fig = Inr figure_obj"
    and md: "build_metadata L R name extra = Inr md"
    and img: "render_figure figure_obj (dropWhile (\<lambda>c. c = 46) (py_lower L (path_suffix name))) kw
           = Inr image_bytes"
    and emb: "(if py_lower L (path_suffix name) = PNG_EXT then embed_png_metadata L image_bytes md
          else embed_svg_metadata L image_bytes md) = Inr embedded"
    and w1: "write_bytes f (joinpath LATEST_DIR (path_name name)) embedded = (None, f1)"
    and w2: "write_bytes f1 (build_history_path L (clock_later R) name md) embedded = (None, f2)"
    and git: "47 \<notin> set (format_git_hash L (dict_get md (str ''git_commit'')))"
  shows "savefig L R name fig extra kw f =
           (Inr \<lparr>latest_path = [str ''figures'', str ''latest'', path_stem name @ path_suffix name],
                 history_path = joinpath HISTORY_DIR (path_stem name)
                   @ [str ''_'' @ format_timestamp_token L (clock_later R) (dict_get md (str ''created_at''))
                      @ str ''_'' @ format_git_hash L (dict_get md (str ''git_commit''))
                      @ py_lower L (path_suffix name)],
                 result_metadata = md\<rparr>, f2)"
proof -
  have l: "joinpath LATEST_DIR (path_name name)
           = [str ''figures'', str ''latest'', path_stem name @ path_suffix name]"
    using latest_path_eq[OF sup] path_name_stem_suffix[of name] by simp
  show ?thesis
    using savefig_success[OF sup fo md img emb w1 w2]
    unfolding l history_path_eq[OF sup git] .
qed

lemma utf8_encode_ascii: "list_all (\<lambda>c. c < 128) t \<Longrightarrow> utf8_encode t = Inr (map char_of t)"
  by (induction t) (auto simp: utf8_encode_char_def)

lemma embed_png_ok:
  assumes sig: "startswith png_bytes PNG_SIGNATURE"
    and js: "json_dumps L metadata = Inr payload"
    and ascii: "list_all (\<lambda>c. c < 128) payload"
    and sz: "length payload + 6 < 2 ^ 32"
  shows "\<exists>b. embed_png_metadata L png_bytes metadata = Inr b"
proof -
  have tb: "utf8_encode payload = Inr (map char_of payload)" using ascii by (rule utf8_encode_ascii)
  have "length (map char_of payload :: bytes) + 6 < 2 ^ 32" using sz by simp
  from build_text_chunk_ok[OF tb this] obtain chunk
    where "build_text_chunk METADATA_KEYWORD payload = Inr chunk" by blast
  thus ?thesis unfolding embed_png_metadata_def using sig js by (simp add: and_then_def)
qed

lemma example_build_metadata:
  "name = str ''plot.PNG'' \<or> name = str ''plot.png'' \<Longrightarrow>
   build_metadata example_lib example_runtime name None = Inr (example_record name)"
  by (auto simp add: build_metadata_def infer_git_commit_def infer_source_path_def infer_cell_number_def
      get_refig_version_def example_runtime_def example_clock_def isoformat_def zero_pad_def
      and_then_def startswith_def path_defs example_record_def digits10.simps)

lemma example_dumps:
  "name = str ''plot.PNG'' \<or> name = str ''plot.png'' \<Longrightarrow>
   \<exists>p. json_dumps example_lib (example_record name) = Inr p \<and> list_all (\<lambda>c. c < 128) p \<and> length p + 6 < 2 ^ 32"
  by (auto simp add: example_record_def example_lib_def example_json_dumps_def json_item_def json_quote_def
      json_value_def join_with_def str_def)

lemma example_embed:
  assumes "name = str ''plot.PNG'' \<or> name = str ''plot.png''"
  shows "\<exists>b. embed_png_metadata example_lib example_png (example_record name) = Inr b"
proof -
  obtain p where p: "json_dumps example_lib (example_record name) = Inr p" "list_all (\<lambda>c. c < 128) p"
    "length p + 6 < 2 ^ 32" using example_dumps[OF assms] by blast
  have sig: "startswith example_png PNG_SIGNATURE"
    by (simp add: startswith_def example_png_def PNG_SIGNATURE_def)
  show ?thesis using embed_png_ok[OF sig p] .
qed

lemma example_tokens:
  "format_timestamp_token example_lib example_clock (dict_get (example_record name) (str ''created_at''))
     = str ''20240102T030405''"
  "format_git_hash example_lib (dict_get (example_record name) (str ''git_commit'')) = str ''nogit''"
  by (simp_all add: example_record_def dict_get_def format_git_hash_def format_timestamp_token_def
      example_lib_def example_fromisoformat_def number_at_def slice_def is_digit_def int_of_digits_def
      digit_value_def replace_tzinfo_utc_def strftime_compact_def zero_pad_def digits10.simps str_def)

lemma example_writes:
  "\<exists>f1 f2. write_bytes empty_fs [str ''figures'', str ''latest'', n] b = (None, f1)
     \<and> write_bytes f1 [str ''figures'', str ''history'', str ''plot'', h] b = (None, f2)"
  by (simp add: write_bytes_def empty_fs_def str_def)

theorem savefig_extension_case_witness:
  "\<exists>f2. savefig example_lib example_runtime (str ''plot.PNG'') (Some example_figure) None None empty_fs
     = (Inr \<lparr>latest_path = [str ''figures'', str ''latest'', str ''plot.PNG''],
             history_path = [str ''figures'', str ''history'', str ''plot'',
                             str ''_20240102T030405_nogit.png''],
             result_metadata = example_record (str ''plot.PNG'')\<rparr>, f2)"
proof -
  let ?name = "str ''plot.PNG''"
  let ?md = "example_record ?name"
  have suffix: "py_lower example_lib (path_suffix ?name) = str ''.png''"
    by (simp add: path_defs)
  have stem: "path_stem ?name = str ''plot''" "path_suffix ?name = str ''.PNG''"
    by (simp_all add: path_defs)
  have sup: "py_lower example_lib (path_suffix ?name) \<in> set SUPPORTED_EXTENSIONS"
    unfolding suffix by (simp add: SUPPORTED_EXTENSIONS_def PNG_EXT_def)
  have fo: "resolve_figure example_runtime (Some example_figure) = Inr example_figure"
    by (simp add: resolve_figure_def)
  have md: "build_metadata example_lib example_runtime ?name None = Inr ?md"
    by (rule example_build_metadata) simp
  have img: "render_figure example_figure (dropWhile (\<lambda>c. c = 46) (py_lower example_lib (path_suffix ?name))) None
           = Inr example_png"
    unfolding suffix by (simp add: render_figure_def example_figure_def str_def)
  obtain b where b: "embed_png_metadata example_lib example_png ?md = Inr b"
    using example_embed[of ?name] by blast
  have emb: "(if py_lower example_lib (path_suffix ?name) = PNG_EXT
              then embed_png_metadata example_lib example_png ?md
              else embed_svg_metadata example_lib example_png ?md) = Inr b"
    unfolding suffix using b by (simp add: PNG_EXT_def)
  have git: "47 \<notin> set (format_git_hash example_lib (dict_get ?md (str ''git_commit'')))"
    unfolding example_tokens by (simp add: str_def)
  have cl: "clock_later example_runtime = example_clock"
    by (simp add: example_runtime_def)
  have hist: "build_history_path example_lib (clock_later example_runtime) ?name ?md
       = [str ''figures'', str ''history'', str ''plot'', str ''_20240102T030405_nogit.png'']"
    unfolding history_path_eq[OF sup git] cl example_tokens suffix stem HISTORY_DIR_eq
    by (simp add: joinpath_def path_parts_def str_def py_lower_def ascii_lower_def)
  have lat: "joinpath LATEST_DIR (path_name ?name) = [str ''figures'', str ''latest'', ?name]"
    using latest_path_eq[OF sup] path_name_stem_suffix[of ?name] stem by (simp add: str_def)
  obtain f1 f2 where w1: "write_bytes empty_fs [str ''figures'', str ''latest'', ?name] b = (None, f1)"
    and w2: "write_bytes f1 [str ''figures'', str ''history'', str ''plot'', str ''_20240102T030405_nogit.png''] b = (None, f2)"
    using example_writes by blast
  have "savefig example_lib example_runtime ?name (Some example_figure) None None empty_fs
     = (Inr \<lparr>latest_path = [str ''figures'', str ''latest'', path_stem ?name @ path_suffix ?name],
             history_path = joinpath HISTORY_DIR (path_stem ?name)
               @ [str ''_'' @ format_timestamp_token example_lib (clock_later example_runtime)
                                (dict_get ?md (str ''created_at''))
                  @ str ''_'' @ format_git_hash example_lib (dict_get ?md (str ''git_commit''))
                  @ py_lower example_lib (path_suffix ?name)],
             result_metadata = ?md\<rparr>, f2)"
    using savefig_extension_case [OF sup fo md img emb _ _ git, of empty_fs f1 f2] w1 w2
    unfolding lat hist by simp
  moreover have "joinpath HISTORY_DIR (path_stem ?name)
               @ [str ''_'' @ format_timestamp_token example_lib (clock_later example_runtime)
                                (dict_get ?md (str ''created_at''))
                  @ str ''_'' @ format_git_hash example_lib (dict_get ?md (str ''git_commit''))
                  @ py_lower example_lib (path_suffix ?name)]
          = [str ''figures'', str ''history'', str ''plot'', str ''_20240102T030405_nogit.png'']"
    using hist history_path_eq[OF sup git, of "clock_later example_runtime"] by simp
  moreover have "path_stem ?name @ path_suffix ?name = ?name" unfolding stem by (simp add: str_def)
  ultimately show ?thesis by auto
qed

lemma plot_png_parts:
  "py_lower L (path_suffix (str ''plot.png'')) = str ''.png''"
  "path_stem (str ''plot.png'') = str ''plot''"
  "path_name (str ''plot.png'') = str ''plot.png''"
  by (simp_all add: path_defs)

lemma history_path_prefix: "\<exists>rest. build_history_path L now name md = HISTORY_DIR @ rest"
  by (simp add: build_history_path_def Let_def joinpath_def)

lemma build_metadata_figure:
  assumes "build_metadata L R name None = Inr md"
  shows "dict_get md (str ''figure'') = PStr (path_name name)"
proof (cases "infer_git_commit L R")
  case (Inl e)
  thus ?thesis using assms by (simp add: build_metadata_def and_then_def)
next
  case (Inr g)
  hence "md = [(str ''figure'', PStr (path_name name)),
                   (str ''created_at'', PStr (isoformat (clock R))),
                   (str ''source'', infer_source_path R),
                   (str ''cell_number'', infer_cell_number R),
                   (str ''git_commit'', g),
                   (str ''refig_version'', get_refig_version R)]"
    using assms by (simp add: build_metadata_def and_then_def)
  thus ?thesis by (simp add: dict_get_def)
qed

text \<open>
  Claim C9. Saving \<open>plot.png\<close> with no caller metadata, when the figure resolves, the record
  is built, the renderer returns, the codec embeds and both writes succeed: \<open>savefig\<close> returns;
  the latest path is \<open>figures/latest/plot.png\<close>; both the latest and the history file hold
  the embedded bytes; the \<open>figure\<close> field of the returned record is \<open>plot.png\<close>; and the
  history path is \<open>figures/history/plot/_<timestamp>_<revision>.png\<close> (the revision token
  of a real revision has no slash).
\<close>

theorem savefig_plot_png:
  assumes fo: "resolve_figure R fig = Inr figure_obj"
    and md: "build_metadata L R (str ''plot.png'') None = Inr md"
    and img: "render_figure figure_obj (str ''png'') kw = Inr image_bytes"
    and emb: "embed_png_metadata L image_bytes md = Inr embedded"
    and w1: "write_bytes f [str ''figures'', str ''latest'', str ''plot.png''] embedded = (None, f1)"
    and w2: "write_bytes f1 (build_history_path L (clock_later R) (str ''plot.png'') md) embedded
               = (None, f2)"
  shows "savefig L R (str ''plot.png'') fig None kw f =
           (Inr \<lparr>latest_path = [str ''figures'', str ''latest'', str ''plot.png''],
                 history_path = build_history_path L (clock_later R) (str ''plot.png'') md,
                 result_metadata = md\<rparr>, f2)
         \<and> f2 [str ''figures'', str ''latest'', str ''plot.png''] = Some (File embedded)
         \<and> f2 (build_history_path L (clock_later R) (str ''plot.png'') md) = Some (File embedded)
         \<and> dict_get md (str ''figure'') = PStr (str ''plot.png'')
         \<and> (47 \<notin> set (format_git_hash L (dict_get md (str ''git_commit''))) \<longrightarrow>
              build_history_path L (clock_later R) (str ''plot.png'') md =
                [str ''figures'', str ''history'', str ''plot'',
                 str ''_'' @ format_timestamp_token L (clock_later R) (dict_get md (str ''created_at''))
                 @ str ''_'' @ format_git_hash L (dict_get md (str ''git_commit'')) @ str ''.png''])"
proof -
  let ?name = "str ''plot.png''"
  let ?latest = "[str ''figures'', str ''latest'', ?name]"
  let ?history = "build_history_path L (clock_later R) ?name md"
  have sup: "py_lower L (path_suffix ?name) \<in> set SUPPORTED_EXTENSIONS"
    unfolding plot_png_parts by (simp add: SUPPORTED_EXTENSIONS_def PNG_EXT_def)
  have lat: "joinpath LATEST_DIR (path_name ?name) = ?latest"
    using latest_path_eq[OF sup] unfolding plot_png_parts .
  have img': "render_figure figure_obj (dropWhile (\<lambda>c. c = 46) (py_lower L (path_suffix ?name))) kw
           = Inr image_bytes"
    unfolding plot_png_parts using img by (simp add: str_def)
  have emb': "(if py_lower L (path_suffix ?name) = PNG_EXT then embed_png_metadata L image_bytes md
          else embed_svg_metadata L image_bytes md) = Inr embedded"
    unfolding plot_png_parts using emb by (simp add: PNG_EXT_def)
  have a: "savefig L R ?name fig None kw f =
           (Inr \<lparr>latest_path = ?latest, history_path = ?history, result_metadata = md\<rparr>, f2)"
    using savefig_success[OF sup fo md img' emb', of f f1 f2] w1 w2 unfolding lat by simp
  obtain rest where rest: "?history = HISTORY_DIR @ rest" using history_path_prefix by blast
  have ne: "?latest \<noteq> ?history" unfolding rest HISTORY_DIR_eq by (simp add: str_def)
  have b: "f2 ?latest = Some (File embedded)"
    using write_bytes_ok(2)[OF w2 ne] write_bytes_ok(1)[OF w1] by simp
  have c: "f2 ?history = Some (File embedded)" using write_bytes_ok(1)[OF w2] .
  have d: "dict_get md (str ''figure'') = PStr ?name"
    using build_metadata_figure[OF md] unfolding plot_png_parts .
  have e: "47 \<notin> set (format_git_hash L (dict_get md (str ''git_commit''))) \<longrightarrow>
              ?history =
                [str ''figures'', str ''history'', str ''plot'',
                 str ''_'' @ format_timestamp_token L (clock_later R) (dict_get md (str ''created_at''))
                 @ str ''_'' @ format_git_hash L (dict_get md (str ''git_commit'')) @ str ''.png'']"
  proof
    assume git: "47 \<notin> set (format_git_hash L (dict_get md (str ''git_commit'')))"
    have "joinpath HISTORY_DIR (str ''plot'') = [str ''figures'', str ''history'', str ''plot'']"
      unfolding HISTORY_DIR_eq by (simp add: joinpath_def path_parts_def str_def)
    thus "?history =
                [str ''figures'', str ''history'', str ''plot'',
                 str ''_'' @ format_timestamp_token L (clock_later R) (dict_get md (str ''created_at''))
                 @ str ''_'' @ format_git_hash L (dict_get md (str ''git_commit'')) @ str ''.png'']"
      unfolding history_path_eq[OF sup git] plot_png_parts by simp
  qed
  show ?thesis using a b c d e by blast
qed

theorem savefig_plot_png_witness:
  "\<exists>b f2. savefig example_lib example_runtime (str ''plot.png'') (Some example_figure) None None empty_fs
     = (Inr \<lparr>latest_path = [str ''figures'', str ''latest'', str ''plot.png''],
             history_path = [str ''figures'', str ''history'', str ''plot'',
                             str ''_20240102T030405_nogit.png''],
             result_metadata = example_record (str ''plot.png'')\<rparr>, f2)
     \<and> f2 [str ''figures'', str ''latest'', str ''plot.png''] = Some (File b)
     \<and> f2 [str ''figures'', str ''history'', str ''plot'', str ''_20240102T030405_nogit.png'']
         = Some (File b)
     \<and> dict_get (example_record (str ''plot.png'')) (str ''figure'') = PStr (str ''plot.png'')"
proof -
  let ?name = "str ''plot.png''"
  let ?md = "example_record ?name"
  let ?hist = "[str ''figures'', str ''history'', str ''plot'', str ''_20240102T030405_nogit.png'']"
  have fo: "resolve_figure example_runtime (Some example_figure) = Inr example_figure"
    by (simp add: resolve_figure_def)
  have md: "build_metadata example_lib example_runtime ?name None = Inr ?md"
    by (rule example_build_metadata) simp
  have img: "render_figure example_figure (str ''png'') None = Inr example_png"
    by (simp add: render_figure_def example_figure_def)
  obtain b where emb: "embed_png_metadata example_lib example_png ?md = Inr b"
    using example_embed[of ?name] by blast
  have cl: "clock_later example_runtime = example_clock"
    by (simp add: example_runtime_def)
  have git: "47 \<notin> set (format_git_hash example_lib (dict_get ?md (str ''git_commit'')))"
    unfolding example_tokens by (simp add: str_def)
  obtain f1 f2 where w1: "write_bytes empty_fs [str ''figures'', str ''latest'', ?name] b = (None, f1)"
    and w2': "write_bytes f1 ?hist b = (None, f2)"
    using example_writes by blast
  note t = savefig_plot_png [OF fo md img emb w1, of f2]
  have sup: "py_lower example_lib (path_suffix ?name) \<in> set SUPPORTED_EXTENSIONS"
    unfolding plot_png_parts by (simp add: SUPPORTED_EXTENSIONS_def PNG_EXT_def)
  have hist: "build_history_path example_lib (clock_later example_runtime) ?name ?md = ?hist"
    unfolding history_path_eq[OF sup git] cl example_tokens plot_png_parts HISTORY_DIR_eq
    by (simp add: joinpath_def path_parts_def str_def)
  have w2: "write_bytes f1 (build_history_path example_lib (clock_later example_runtime) ?name ?md) b
              = (None, f2)"
    unfolding hist using w2' .
  show ?thesis using t[OF w2] unfolding hist by blast
qed

lemma map_of_dict_set: "map_of (dict_set m k v) = (map_of m)(k \<mapsto> v)"
  by (induction m k v rule: dict_set.induct) (auto simp: fun_eq_iff)

lemma map_of_dict_update: "k \<notin> fst ` set extra \<Longrightarrow> map_of (dict_update m extra) k = map_of m k"
proof (induction m extra rule: dict_update.induct)
  case (1 m) thus ?case by simp
next
  case (2 m k' v extra)
  thus ?case by (simp add: map_of_dict_set)
qed

lemma source_loop_none:
  "\<forall>fn \<in> set frames. startswith fn (str ''<'') \<or> is_library_path R fn \<Longrightarrow> source_loop R frames = PNone"
  by (induction frames) auto

lemma build_metadata_cases:
  assumes "build_metadata L R name extra = Inr md"
  obtains g where "infer_git_commit L R = Inr g"
    and "md = (case extra of None \<Rightarrow> id | Some e \<Rightarrow> (\<lambda>m. dict_update m e))
                [(str ''figure'', PStr (path_name name)),
                 (str ''created_at'', PStr (isoformat (clock R))),
                 (str ''source'', infer_source_path R),
                 (str ''cell_number'', infer_cell_number R),
                 (str ''git_commit'', g),
                 (str ''refig_version'', get_refig_version R)]"
proof (cases "infer_git_commit L R")
  case (Inl e)
  thus ?thesis using assms by (simp add: build_metadata_def and_then_def)
next
  case (Inr g)
  thus ?thesis using assms that[of g]
    by (cases extra) (simp_all add: build_metadata_def and_then_def)
qed

lemma str_keys_distinct:
  "str ''figure'' \<noteq> str ''source''" "str ''created_at'' \<noteq> str ''source''"
  "str ''figure'' \<noteq> str ''cell_number''" "str ''created_at'' \<noteq> str ''cell_number''"
  "str ''source'' \<noteq> str ''cell_number''"
  "str ''figure'' \<noteq> str ''git_commit''" "str ''created_at'' \<noteq> str ''git_commit''"
  "str ''source'' \<noteq> str ''git_commit''" "str ''cell_number'' \<noteq> str ''git_commit''"
  "str ''figure'' \<noteq> str ''refig_version''" "str ''created_at'' \<noteq> str ''refig_version''"
  "str ''source'' \<noteq> str ''refig_version''" "str ''cell_number'' \<noteq> str ''refig_version''"
  "str ''git_commit'' \<noteq> str ''refig_version''"
  by (simp_all add: str_def)

lemma build_metadata_lookup:
  assumes md: "build_metadata L R name extra = Inr md"
    and k: "extra = None \<or> (\<exists>e. extra = Some e \<and> k \<notin> fst ` set e)"
  shows "map_of md k =
     map_of [(str ''figure'', PStr (path_name name)),
                 (str ''created_at'', PStr (isoformat (clock R))),
                 (str ''source'', infer_source_path R),
                 (str ''cell_number'', infer_cell_number R),
                 (str ''git_commit'', (case infer_git_commit L R of Inr g \<Rightarrow> g | Inl e \<Rightarrow> PNone)),
                 (str ''refig_version'', get_refig_version R)] k"
proof -
  from md obtain g where g: "infer_git_commit L R = Inr g"
    and m: "md = (case extra of None \<Rightarrow> id | Some e \<Rightarrow> (\<lambda>m. dict_update m e))
                [(str ''figure'', PStr (path_name name)),
                 (str ''created_at'', PStr (isoformat (clock R))),
                 (str ''source'', infer_source_path R),
                 (str ''cell_number'', infer_cell_number R),
                 (str ''git_commit'', g),
                 (str ''refig_version'', get_refig_version R)]"
    by (rule build_metadata_cases)
  show ?thesis
  proof (cases extra)
    case None
    thus ?thesis using m g by simp
  next
    case (Some e)
    hence "k \<notin> fst ` set e" using k by simp
    thus ?thesis unfolding m Some g using map_of_dict_update[of k e] by simp
  qed
qed

text \<open>
  Claim C4, as amended. When an optional source cannot be determined (every frame of the
  call stack is synthetic or inside the library; IPython cannot be imported or there is no
  shell with an execution counter; \<open>git\<close> is missing or exits with an error; the package
  version is not found), the record that \<open>_build_metadata\<close> composes holds the corresponding
  key with the value \<open>None\<close>, unless the caller's extra metadata sets that key.
\<close>

theorem build_metadata_undetermined:
  assumes md: "build_metadata L R name extra = Inr md"
  shows "((\<forall>fn \<in> set (butlast (stack R)). startswith fn (str ''<'') \<or> is_library_path R fn)
            \<and> (extra = None \<or> (\<exists>e. extra = Some e \<and> str ''source'' \<notin> fst ` set e))
            \<longrightarrow> map_of md (str ''source'') = Some PNone)
       \<and> (((\<exists>e. get_ipython R = Inl e) \<or> get_ipython R = Inr None)
            \<and> (extra = None \<or> (\<exists>e. extra = Some e \<and> str ''cell_number'' \<notin> fst ` set e))
            \<longrightarrow> map_of md (str ''cell_number'') = Some PNone)
       \<and> ((git_rev_parse R = Inl FileNotFoundError \<or> git_rev_parse R = Inl CalledProcessError)
            \<and> (extra = None \<or> (\<exists>e. extra = Some e \<and> str ''git_commit'' \<notin> fst ` set e))
            \<longrightarrow> map_of md (str ''git_commit'') = Some PNone)
       \<and> (package_version R = None
            \<and> (extra = None \<or> (\<exists>e. extra = Some e \<and> str ''refig_version'' \<notin> fst ` set e))
            \<longrightarrow> map_of md (str ''refig_version'') = Some PNone)"
proof (intro conjI impI)
  assume a: "(\<forall>fn \<in> set (butlast (stack R)). startswith fn (str ''<'') \<or> is_library_path R fn)
            \<and> (extra = None \<or> (\<exists>e. extra = Some e \<and> str ''source'' \<notin> fst ` set e))"
  hence "infer_source_path R = PNone"
    unfolding infer_source_path_def using source_loop_none[of "rev (butlast (stack R))" R] by simp
  thus "map_of md (str ''source'') = Some PNone"
    using build_metadata_lookup[OF md, of "str ''source''"] a by (simp add: str_keys_distinct str_keys_distinct[symmetric])
next
  assume a: "((\<exists>e. get_ipython R = Inl e) \<or> get_ipython R = Inr None)
            \<and> (extra = None \<or> (\<exists>e. extra = Some e \<and> str ''cell_number'' \<notin> fst ` set e))"
  hence "infer_cell_number R = PNone" by (auto simp: infer_cell_number_def)
  thus "map_of md (str ''cell_number'') = Some PNone"
    using build_metadata_lookup[OF md, of "str ''cell_number''"] a by (simp add: str_keys_distinct str_keys_distinct[symmetric])
next
  assume a: "(git_rev_parse R = Inl FileNotFoundError \<or> git_rev_parse R = Inl CalledProcessError)
            \<and> (extra = None \<or> (\<exists>e. extra = Some e \<and> str ''git_commit'' \<notin> fst ` set e))"
  hence "infer_git_commit L R = Inr PNone" by (auto simp: infer_git_commit_def)
  thus "map_of md (str ''git_commit'') = Some PNone"
    using build_metadata_lookup[OF md, of "str ''git_commit''"] a by (simp add: str_keys_distinct str_keys_distinct[symmetric])
next
  assume a: "package_version R = None
            \<and> (extra = None \<or> (\<exists>e. extra = Some e \<and> str ''refig_version'' \<notin> fst ` set e))"
  hence "get_refig_version R = PNone" by (simp add: get_refig_version_def)
  thus "map_of md (str ''refig_version'') = Some PNone"
    using build_metadata_lookup[OF md, of "str ''refig_version''"] a by (simp add: str_keys_distinct str_keys_distinct[symmetric])
qed

lemma bare_build_metadata:
  "build_metadata example_lib bare_runtime (str ''plot.png'') None = Inr bare_record"
  by (simp add: build_metadata_def infer_git_commit_def infer_source_path_def infer_cell_number_def
      get_refig_version_def bare_runtime_def example_runtime_def example_clock_def isoformat_def
      zero_pad_def and_then_def startswith_def path_defs bare_record_def digits10.simps)

theorem build_metadata_undetermined_witness:
  "build_metadata example_lib bare_runtime (str ''plot.png'') None = Inr bare_record
   \<and> map_of bare_record (str ''source'') = Some PNone
   \<and> map_of bare_record (str ''cell_number'') = Some PNone
   \<and> map_of bare_record (str ''git_commit'') = Some PNone
   \<and> map_of bare_record (str ''refig_version'') = Some PNone"
proof -
  have 1: "\<forall>fn \<in> set (butlast (stack bare_runtime)).
             startswith fn (str ''<'') \<or> is_library_path bare_runtime fn"
    by (simp add: bare_runtime_def example_runtime_def startswith_def str_def)
  have 2: "get_ipython bare_runtime = Inl ImportError"
    by (simp add: bare_runtime_def example_runtime_def)
  have 3: "git_rev_parse bare_runtime = Inl FileNotFoundError"
    by (simp add: bare_runtime_def example_runtime_def)
  have 4: "package_version bare_runtime = None"
    by (simp add: bare_runtime_def example_runtime_def)
  show ?thesis
    using build_metadata_undetermined [OF bare_build_metadata] bare_build_metadata 1 2 3 4 by blast
qed

text \<open>
  Claim C4 as stated fails: in the runtime where no optional source can be determined, each
  of the four keys is present in the record (with the value \<open>None\<close>), not absent.
\<close>

theorem build_metadata_absent_counterexample:
  "build_metadata example_lib bare_runtime (str ''plot.png'') None = Inr bare_record
   \<and> \<not> key_absent bare_record (str ''source'')
   \<and> \<not> key_absent bare_record (str ''cell_number'')
   \<and> \<not> key_absent bare_record (str ''git_commit'')
   \<and> \<not> key_absent bare_record (str ''refig_version'')"
  using bare_build_metadata by (simp add: key_absent_def bare_record_def str_def)

lemma strftime_replace_tzinfo: "strftime_compact (replace_tzinfo_utc d) = strftime_compact d"
  by (simp add: replace_tzinfo_utc_def strftime_compact_def)

lemma format_timestamp_token_cases:
  "(fromisoformat L s = Some parsed \<longrightarrow>
      format_timestamp_token L now (PStr s) = strftime_compact parsed)
   \<and> (fromisoformat L s = None \<and> filter (py_isalnum L) s \<noteq> [] \<longrightarrow>
      format_timestamp_token L now (PStr s) = filter (py_isalnum L) s)
   \<and> (fromisoformat L s = None \<and> filter (py_isalnum L) s = [] \<longrightarrow>
      format_timestamp_token L now (PStr s) = strftime_compact now)"
  by (simp add: format_timestamp_token_def strftime_replace_tzinfo Let_def)

lemma example_parse:
  "fromisoformat example_lib (str ''2024-01-01T12:00:00+05:00'')
     = Some \<lparr>year = 2024, month = 1, day = 1, hour = 12, minute = 0, second = 0,
             microsecond = 0, utcoffset = Some 18000\<rparr>"
  by (simp add: example_lib_def example_fromisoformat_def number_at_def slice_def is_digit_def
      int_of_digits_def digit_value_def str_def)

text \<open>
  Claim C3 at the record whose \<open>created_at\<close> is \<open>2024-01-01T12:00:00+05:00\<close>: the string
  parses, the instant is 07:00:00 UTC, and the token that \<open>_format_timestamp_token\<close> returns
  is \<open>20240101T120000\<close>, the fields as written, not \<open>20240101T070000\<close>.
\<close>

theorem timestamp_token_not_utc:
  "fromisoformat example_lib (str ''2024-01-01T12:00:00+05:00'')
     = Some \<lparr>year = 2024, month = 1, day = 1, hour = 12, minute = 0, second = 0,
             microsecond = 0, utcoffset = Some 18000\<rparr>
   \<and> format_timestamp_token example_lib example_clock (PStr (str ''2024-01-01T12:00:00+05:00''))
     = str ''20240101T120000''
   \<and> strftime_compact (astimezone_utc \<lparr>year = 2024, month = 1, day = 1, hour = 12, minute = 0,
         second = 0, microsecond = 0, utcoffset = Some 18000\<rparr>)
     = str ''20240101T070000''
   \<and> format_timestamp_token example_lib example_clock (PStr (str ''2024-01-01T12:00:00+05:00''))
     \<noteq> strftime_compact (astimezone_utc \<lparr>year = 2024, month = 1, day = 1, hour = 12, minute = 0,
         second = 0, microsecond = 0, utcoffset = Some 18000\<rparr>)"
proof -
  let ?d = "\<lparr>year = 2024, month = 1, day = 1, hour = 12, minute = 0, second = 0,
             microsecond = 0, utcoffset = Some (18000::int)\<rparr>"
  have 1: "format_timestamp_token example_lib example_clock (PStr (str ''2024-01-01T12:00:00+05:00''))
     = str ''20240101T120000''"
    unfolding format_timestamp_token_def by (simp add: example_parse strftime_replace_tzinfo)
      (simp add: strftime_compact_def zero_pad_def digits10.simps str_def)
  have 2: "strftime_compact (astimezone_utc ?d) = str ''20240101T070000''"
    by (simp add: astimezone_utc_def Let_def strftime_compact_def zero_pad_def digits10.simps str_def)
  have 3: "str ''20240101T120000'' \<noteq> str ''20240101T070000''" by (simp add: str_def)
  show ?thesis using example_parse 1 2 3 by simp
qed

end
